theory Spec2Isabelle
  imports Complex_Main
begin

section \<open>JavaScript values, as far as the services use them\<close>

text \<open>
  A JavaScript number is a double. The services only compare numbers, take their minimum
  and maximum, and divide two small set sizes, so a number is modelled as a real with the
  two infinities and NaN; every comparison with NaN is false, as in the language.
\<close>

datatype jsnum = NaN | NegInf | Fin real | PosInf

fun num_lt :: "jsnum \<Rightarrow> jsnum \<Rightarrow> bool" where
  "num_lt (Fin a) (Fin b) = (a < b)"
| "num_lt NegInf (Fin b) = True"
| "num_lt NegInf PosInf = True"
| "num_lt (Fin a) PosInf = True"
| "num_lt _ _ = False"

definition num_gt :: "jsnum \<Rightarrow> jsnum \<Rightarrow> bool" where
  "num_gt a b = num_lt b a"

definition num_le :: "jsnum \<Rightarrow> jsnum \<Rightarrow> bool" where
  "num_le a b = (a \<noteq> NaN \<and> b \<noteq> NaN \<and> \<not> num_lt b a)"

definition num_ge :: "jsnum \<Rightarrow> jsnum \<Rightarrow> bool" where
  "num_ge a b = num_le b a"

definition Math_min :: "jsnum \<Rightarrow> jsnum \<Rightarrow> jsnum" where
  "Math_min a b = (if a = NaN \<or> b = NaN then NaN else if num_lt b a then b else a)"

definition Math_max :: "jsnum \<Rightarrow> jsnum \<Rightarrow> jsnum" where
  "Math_max a b = (if a = NaN \<or> b = NaN then NaN else if num_lt a b then b else a)"

text \<open>
  A value as \<open>JSON.parse\<close> and property access produce it. An object is the list of its
  own properties, one entry per key.
\<close>

datatype jsval =
    JUndefined
  | JNull
  | JBool bool
  | JNumber jsnum
  | JString string
  | JArray "jsval list"
  | JObject "(string \<times> jsval) list"

datatype exn = SyntaxError | TypeError | RangeError | StatusError nat | Error string

definition bindE :: "exn + 'a \<Rightarrow> ('a \<Rightarrow> exn + 'b) \<Rightarrow> exn + 'b" where
  "bindE m f = (case m of Inl e \<Rightarrow> Inl e | Inr x \<Rightarrow> f x)"

text \<open>\<open>ToBoolean\<close>: what \<open>!v\<close>, \<open>v || d\<close> and \<open>if (v)\<close> test.\<close>

fun ToBoolean :: "jsval \<Rightarrow> bool" where
  "ToBoolean JUndefined = False"
| "ToBoolean JNull = False"
| "ToBoolean (JBool b) = b"
| "ToBoolean (JNumber n) = (n \<noteq> NaN \<and> n \<noteq> Fin 0)"
| "ToBoolean (JString s) = (s \<noteq> [])"
| "ToBoolean (JArray _) = True"
| "ToBoolean (JObject _) = True"

definition js_or :: "jsval \<Rightarrow> jsval \<Rightarrow> jsval" where
  "js_or v d = (if ToBoolean v then v else d)"

text \<open>
  \<open>v.k\<close> for the keys the services read (none of them names a built-in property of a
  string, an array, a number or a boolean): a TypeError on \<open>null\<close> and \<open>undefined\<close>, the
  own property of an object, \<open>undefined\<close> otherwise.
\<close>

fun get_prop :: "jsval \<Rightarrow> string \<Rightarrow> exn + jsval" where
  "get_prop JUndefined k = Inl TypeError"
| "get_prop JNull k = Inl TypeError"
| "get_prop (JObject kvs) k = Inr (case map_of kvs k of Some v \<Rightarrow> v | None \<Rightarrow> JUndefined)"
| "get_prop _ k = Inr JUndefined"

text \<open>
  The parts of the runtime that are taken as given: \<open>JSON.parse\<close> (\<open>None\<close> is its
  SyntaxError), \<open>String.prototype.trim\<close> and \<open>String.prototype.toLowerCase\<close>, the
  conversion of a string to a number, and the conversion of an array or an object to a
  number (which may raise a TypeError).
\<close>

record runtime =
  JSON_parse :: "string \<Rightarrow> jsval option"
  trim :: "string \<Rightarrow> string"
  toLowerCase :: "string \<Rightarrow> string"
  StringToNumber :: "string \<Rightarrow> jsnum"
  ObjectToNumber :: "jsval \<Rightarrow> exn + jsnum"

fun ToNumber :: "runtime \<Rightarrow> jsval \<Rightarrow> exn + jsnum" where
  "ToNumber rt JUndefined = Inr NaN"
| "ToNumber rt JNull = Inr (Fin 0)"
| "ToNumber rt (JBool b) = Inr (Fin (if b then 1 else 0))"
| "ToNumber rt (JNumber n) = Inr n"
| "ToNumber rt (JString s) = Inr (StringToNumber rt s)"
| "ToNumber rt (JArray xs) = ObjectToNumber rt (JArray xs)"
| "ToNumber rt (JObject kvs) = ObjectToNumber rt (JObject kvs)"

subsection \<open>Strings\<close>

text \<open>
  What \<open>trim\<close> and \<open>toLowerCase\<close> do on a string of ASCII characters: the white
  space and line terminators of ASCII are the six characters below, and only the letters
  from A to Z change. The examples use them; the services are modelled on the functions of
  the runtime.
\<close>

definition is_space :: "char \<Rightarrow> bool" where
  "is_space c = (c \<in> set [CHR 0x20, CHR 0x09, CHR 0x0A, CHR 0x0B, CHR 0x0C, CHR 0x0D])"

definition asciiTrim :: "string \<Rightarrow> string" where
  "asciiTrim s = rev (dropWhile is_space (rev (dropWhile is_space s)))"

definition toLowerChar :: "char \<Rightarrow> char" where
  "toLowerChar c =
     (case map_of (zip ''ABCDEFGHIJKLMNOPQRSTUVWXYZ'' ''abcdefghijklmnopqrstuvwxyz'') c of
        Some l \<Rightarrow> l
      | None \<Rightarrow> c)"

definition asciiLowerCase :: "string \<Rightarrow> string" where
  "asciiLowerCase s = map toLowerChar s"

definition startsWith :: "string \<Rightarrow> string \<Rightarrow> bool" where
  "startsWith s p = (take (length p) s = p)"

text \<open>
  \<open>s.replace(/p\n?/g, '')\<close> for a non-empty literal \<open>p\<close>: every match, found from left
  to right, is dropped together with the newline that follows it. The counter is the
  number of characters of the current match still to drop.
\<close>

fun removeAll :: "string \<Rightarrow> nat \<Rightarrow> string \<Rightarrow> string" where
  "removeAll p k [] = []"
| "removeAll p (Suc k) (c # cs) = removeAll p k cs"
| "removeAll p 0 (c # cs) =
     (if startsWith (c # cs) p
      then removeAll p (length p - 1 + (if startsWith (drop (length p) (c # cs)) [CHR 0x0A] then 1 else 0)) cs
      else c # removeAll p 0 cs)"

definition cleanResponse :: "runtime \<Rightarrow> string \<Rightarrow> string" where
  "cleanResponse rt response =
     (let cleaned = trim rt response in
      if startsWith cleaned ''```json''
      then removeAll ''```'' 0 (removeAll ''```json'' 0 cleaned)
      else if startsWith cleaned ''```'' then removeAll ''```'' 0 cleaned
      else cleaned)"

section \<open>Message importance classifier\<close>

record ClassificationResult =
  score :: jsnum
  category :: string
  reasoning :: jsval

definition bandCategory :: "jsnum \<Rightarrow> string" where
  "bandCategory s = (if num_ge s (Fin 8) then ''high'' else if num_ge s (Fin 5) then ''medium'' else ''low'')"

text \<open>
  \<open>if (!category || !['high', 'medium', 'low'].includes(category))\<close>: only a string can
  be an element of the list, and the three strings are truthy.
\<close>

fun chooseCategory :: "jsval \<Rightarrow> jsnum \<Rightarrow> string" where
  "chooseCategory (JString c) s =
     (if \<not> ToBoolean (JString c) \<or> c \<notin> set [''high'', ''medium'', ''low''] then bandCategory s else c)"
| "chooseCategory _ s = bandCategory s"

text \<open>The body of the \<open>try\<close> block of \<open>parseClassificationResponse\<close>, after \<open>JSON.parse\<close>.\<close>

definition classificationOfParsed :: "runtime \<Rightarrow> jsval \<Rightarrow> exn + ClassificationResult" where
  "classificationOfParsed rt parsed =
     bindE (get_prop parsed ''score'') (\<lambda>sv.
     bindE (ToNumber rt sv) (\<lambda>n.
     let s = Math_max (Fin 1) (Math_min (Fin 10) n) in
     bindE (get_prop parsed ''category'') (\<lambda>c.
     bindE (get_prop parsed ''reasoning'') (\<lambda>r.
     Inr \<lparr>score = s, category = chooseCategory c s,
          reasoning = js_or r (JString ''No reasoning provided'')\<rparr>))))"

definition parseFallback :: ClassificationResult where
  "parseFallback = \<lparr>score = Fin 5, category = ''medium'', reasoning = JString ''Failed to parse response''\<rparr>"

definition parseClassificationResponse :: "runtime \<Rightarrow> string \<Rightarrow> ClassificationResult" where
  "parseClassificationResponse rt response =
     (case JSON_parse rt (cleanResponse rt response) of
        None \<Rightarrow> parseFallback
      | Some parsed \<Rightarrow>
          (case classificationOfParsed rt parsed of Inl e \<Rightarrow> parseFallback | Inr r \<Rightarrow> r))"

text \<open>
  \<open>classify\<close>: the learning context, the prompt and the gateway call end either in an
  exception or in the text of the response; the outer \<open>catch\<close> answers with medium.
\<close>

definition classifyFallback :: ClassificationResult where
  "classifyFallback = \<lparr>score = Fin 5, category = ''medium'',
     reasoning = JString ''Classification error, defaulting to medium importance''\<rparr>"

definition classify :: "runtime \<Rightarrow> exn + string \<Rightarrow> ClassificationResult" where
  "classify rt gateway =
     (case gateway of Inl e \<Rightarrow> classifyFallback | Inr response \<Rightarrow> parseClassificationResponse rt response)"

subsection \<open>Feedback route\<close>

record MonitoredMessage =
  message_id :: nat
  owner_id :: nat
  importance_score :: jsnum
  classification :: string

datatype feedback_reply =
    BadRequest
  | NotFound
  | NotAuthorized
  | ServerError
  | FeedbackRecorded jsnum string

text \<open>\<open>Joi.number().min(1).max(10).required()\<close>\<close>

definition feedbackSchema_valid :: "jsnum \<Rightarrow> bool" where
  "feedbackSchema_valid c = (case c of Fin x \<Rightarrow> 1 \<le> x \<and> x \<le> 10 | _ \<Rightarrow> False)"

definition newCategory :: "jsnum \<Rightarrow> string" where
  "newCategory correctedScore =
     (if num_ge correctedScore (Fin 8) then ''high''
      else if num_ge correctedScore (Fin 5) then ''medium'' else ''low'')"

definition updateMessage :: "nat \<Rightarrow> jsnum \<Rightarrow> string \<Rightarrow> MonitoredMessage \<Rightarrow> MonitoredMessage" where
  "updateMessage mid s c m =
     (if message_id m = mid then m\<lparr>importance_score := s, classification := c\<rparr> else m)"

text \<open>
  \<open>POST /feedback/:id\<close> on the table of monitored messages; \<open>stored\<close> tells whether
  \<open>storeFeedback\<close> succeeded. The reply comes with the table as the request leaves it.
\<close>

definition postFeedback ::
  "MonitoredMessage list \<Rightarrow> bool \<Rightarrow> nat \<Rightarrow> nat \<Rightarrow> jsnum \<Rightarrow> feedback_reply \<times> MonitoredMessage list" where
  "postFeedback table stored userId messageId correctedScore =
     (if \<not> feedbackSchema_valid correctedScore then (BadRequest, table)
      else case find (\<lambda>m. message_id m = messageId) table of
        None \<Rightarrow> (NotFound, table)
      | Some message \<Rightarrow>
          if owner_id message \<noteq> userId then (NotAuthorized, table)
          else if \<not> stored then (ServerError, table)
          else (FeedbackRecorded correctedScore (newCategory correctedScore),
                map (updateMessage messageId correctedScore (newCategory correctedScore)) table))"

text \<open>The agreement of a category with the band of a score, as the specification words it.\<close>

definition agrees_with_band :: "jsnum \<Rightarrow> string \<Rightarrow> bool" where
  "agrees_with_band s c =
     ((num_ge s (Fin 8) \<longrightarrow> c = ''high'') \<and>
      (num_le (Fin 5) s \<and> num_le s (Fin 7) \<longrightarrow> c = ''medium'') \<and>
      (num_le s (Fin 4) \<longrightarrow> c = ''low''))"

text \<open>The model's category is taken over as it is: a string among the three names.\<close>

definition acceptedCategory :: "jsval \<Rightarrow> bool" where
  "acceptedCategory c = (c \<in> set [JString ''high'', JString ''medium'', JString ''low''])"

text \<open>
  The category the model's response carries, when the response parses and the property
  can be read at all.
\<close>

definition modelCategory :: "runtime \<Rightarrow> exn + string \<Rightarrow> jsval option" where
  "modelCategory rt gateway =
     (case gateway of
        Inl e \<Rightarrow> None
      | Inr response \<Rightarrow>
          (case JSON_parse rt (cleanResponse rt response) of
             None \<Rightarrow> None
           | Some parsed \<Rightarrow> (case get_prop parsed ''category'' of Inl e \<Rightarrow> None | Inr c \<Rightarrow> Some c)))"

text \<open>
  A runtime for the examples, which are in ASCII: its parser knows the texts listed, and
  nothing else.
\<close>

definition exampleRuntime :: "(string \<times> jsval) list \<Rightarrow> runtime" where
  "exampleRuntime known =
     \<lparr>JSON_parse = map_of known, trim = asciiTrim, toLowerCase = asciiLowerCase,
      StringToNumber = (\<lambda>s. NaN), ObjectToNumber = (\<lambda>v. Inr NaN)\<rparr>"

definition fencedScore15 :: string where
  "fencedScore15 = ''```json'' @ [CHR 0x0A] @ ''{\"score\": 15}'' @ [CHR 0x0A] @ ''```''"

definition score15Runtime :: runtime where
  "score15Runtime =
     exampleRuntime [(''{\"score\": 15}'' @ [CHR 0x0A], JObject [(''score'', JNumber (Fin 15))])]"

definition score9Low :: string where
  "score9Low = ''{\"score\": 9, \"category\": \"low\"}''"

definition score9LowRuntime :: runtime where
  "score9LowRuntime = exampleRuntime
     [(score9Low, JObject [(''score'', JNumber (Fin 9)), (''category'', JString ''low'')])]"

definition oddScore :: string where
  "oddScore = ''{\"score\": {\"valueOf\": 1, \"toString\": 2}, \"category\": \"high\"}''"

text \<open>A runtime that cannot turn the score of \<open>oddScore\<close> into a number.\<close>

definition oddScoreRuntime :: runtime where
  "oddScoreRuntime = (exampleRuntime
     [(oddScore,
       JObject [(''score'', JObject [(''valueOf'', JNumber (Fin 1)), (''toString'', JNumber (Fin 2))]),
                (''category'', JString ''high'')])])
     \<lparr>ObjectToNumber := (\<lambda>v. Inl TypeError)\<rparr>"

definition exampleTable :: "MonitoredMessage list" where
  "exampleTable =
     [\<lparr>message_id = 1, owner_id = 7, importance_score = Fin 4, classification = ''low''\<rparr>,
      \<lparr>message_id = 2, owner_id = 7, importance_score = Fin 6, classification = ''medium''\<rparr>]"

section \<open>Language-model gateway\<close>

text \<open>
  \<open>generateContentWithRetry\<close>: up to three retries after the first attempt, only for
  the statuses 429 and 503; \<open>call n\<close> is the outcome of attempt \<open>n\<close>. The second argument
  counts the attempts made, the third the retries left.
\<close>

definition retryable :: "exn \<Rightarrow> bool" where
  "retryable e = (e = StatusError 429 \<or> e = StatusError 503)"

fun retryLoop :: "(nat \<Rightarrow> exn + 'a) \<Rightarrow> nat \<Rightarrow> nat \<Rightarrow> exn + 'a" where
  "retryLoop call attempt 0 = call attempt"
| "retryLoop call attempt (Suc left) =
     (case call attempt of
        Inr result \<Rightarrow> Inr result
      | Inl e \<Rightarrow> if retryable e then retryLoop call (Suc attempt) left else Inl e)"

definition generateContentWithRetry :: "(nat \<Rightarrow> exn + 'a) \<Rightarrow> exn + 'a" where
  "generateContentWithRetry call = retryLoop call 0 3"

section \<open>Intent analyzer\<close>

datatype Intent =
    CREATE_DAILY_LOG
  | CREATE_GOAL
  | UPDATE_GOAL
  | CREATE_REMINDER
  | GET_GOAL_STATUS
  | GET_TODAY_SUMMARY
  | CHAT_ONLY

fun intentValue :: "Intent \<Rightarrow> string" where
  "intentValue CREATE_DAILY_LOG = ''create_log''"
| "intentValue CREATE_GOAL = ''create_goal''"
| "intentValue UPDATE_GOAL = ''update_goal''"
| "intentValue CREATE_REMINDER = ''create_reminder''"
| "intentValue GET_GOAL_STATUS = ''get_status''"
| "intentValue GET_TODAY_SUMMARY = ''get_summary''"
| "intentValue CHAT_ONLY = ''chat''"

definition Intent_values :: "Intent list" where
  "Intent_values = [CREATE_DAILY_LOG, CREATE_GOAL, UPDATE_GOAL, CREATE_REMINDER,
                    GET_GOAL_STATUS, GET_TODAY_SUMMARY, CHAT_ONLY]"

text \<open>\<open>Object.values(Intent).includes(v)\<close>, with the member found.\<close>

fun recognizedIntent :: "jsval \<Rightarrow> Intent option" where
  "recognizedIntent (JString s) = find (\<lambda>i. intentValue i = s) Intent_values"
| "recognizedIntent _ = None"

record IntentAnalysisResult =
  intent :: Intent
  entities :: jsval
  confidence :: jsval
  rawMessage :: string

definition chatOnly :: "string \<Rightarrow> IntentAnalysisResult" where
  "chatOnly raw = \<lparr>intent = CHAT_ONLY, entities = JObject [], confidence = JNumber (Fin 1), rawMessage = raw\<rparr>"

text \<open>The body of the \<open>try\<close> block of \<open>parseIntentResponse\<close>, after \<open>JSON.parse\<close>.\<close>

definition intentOfParsed :: "jsval \<Rightarrow> string \<Rightarrow> exn + IntentAnalysisResult" where
  "intentOfParsed parsed response =
     bindE (get_prop parsed ''intent'') (\<lambda>iv.
       case recognizedIntent iv of
         None \<Rightarrow> Inr (chatOnly response)
       | Some i \<Rightarrow>
           bindE (get_prop parsed ''entities'') (\<lambda>e.
           bindE (get_prop parsed ''confidence'') (\<lambda>c.
           Inr \<lparr>intent = i, entities = js_or e (JObject []),
                confidence = js_or c (JNumber (Fin (1/2))), rawMessage = response\<rparr>)))"

definition parseIntentResponse :: "runtime \<Rightarrow> string \<Rightarrow> IntentAnalysisResult" where
  "parseIntentResponse rt response =
     (case JSON_parse rt (cleanResponse rt response) of
        None \<Rightarrow> chatOnly response
      | Some parsed \<Rightarrow>
          (case intentOfParsed parsed response of Inl e \<Rightarrow> chatOnly response | Inr r \<Rightarrow> r))"

text \<open>
  \<open>analyzeIntent\<close>. The prompt is built before the \<open>try\<close>: \<open>toISOString\<close> raises a
  RangeError on an invalid date. \<open>gateway\<close> is the outcome of the call and of reading
  the text of its response.
\<close>

datatype date = InvalidDate | ValidDate

definition analyzeIntent :: "runtime \<Rightarrow> string \<Rightarrow> date \<Rightarrow> exn + string \<Rightarrow> exn + IntentAnalysisResult" where
  "analyzeIntent rt message currentDate gateway =
     (case currentDate of
        InvalidDate \<Rightarrow> Inl RangeError
      | ValidDate \<Rightarrow>
          Inr (case gateway of
                 Inl e \<Rightarrow> chatOnly message
               | Inr response \<Rightarrow> parseIntentResponse rt response))"

text \<open>Examples: a gateway that answers 503 at every attempt, and a response with an unknown intent.\<close>

definition alwaysOverloaded :: "nat \<Rightarrow> exn + string" where
  "alwaysOverloaded attempt = Inl (StatusError 503)"

definition deleteGoal :: string where
  "deleteGoal = ''{\"intent\": \"delete_goal\", \"confidence\": 0.9}''"

definition deleteGoalRuntime :: runtime where
  "deleteGoalRuntime = exampleRuntime
     [(deleteGoal, JObject [(''intent'', JString ''delete_goal''), (''confidence'', JNumber (Fin (9/10)))])]"

section \<open>Action dispatcher\<close>

text \<open>
  A call of one of the three executors, with the arguments \<open>executeAction\<close> passes, in the
  order of the source: \<open>createLog\<close> gets goalKeyword, activity, goodThing, logDate;
  \<open>createGoal\<close> gets title, description, durationDays, startDate; \<open>createReminder\<close> gets
  title, description, plannedDate, goalKeyword; each gets the token.
\<close>

datatype executor_call =
    CreateLog jsval jsval jsval jsval string
  | CreateGoal jsval jsval jsval jsval string
  | CreateReminder jsval jsval jsval jsval string

definition failedAction :: jsval where
  "failedAction = JObject [(''success'', JBool False), (''message'', JString ''Failed to execute action'')]"

definition readEntities ::
  "jsval \<Rightarrow> string \<Rightarrow> string \<Rightarrow> string \<Rightarrow> string \<Rightarrow> (jsval \<Rightarrow> jsval \<Rightarrow> jsval \<Rightarrow> jsval \<Rightarrow> executor_call)
     \<Rightarrow> exn + executor_call" where
  "readEntities e k1 k2 k3 k4 mk =
     bindE (get_prop e k1) (\<lambda>v1.
     bindE (get_prop e k2) (\<lambda>v2.
     bindE (get_prop e k3) (\<lambda>v3.
     bindE (get_prop e k4) (\<lambda>v4. Inr (mk v1 v2 v3 v4)))))"

text \<open>
  The \<open>try\<close> of \<open>executeAction\<close> around one executor: the result comes with the list of
  the executors that were called.
\<close>

definition invoke :: "(executor_call \<Rightarrow> exn + jsval) \<Rightarrow> exn + executor_call \<Rightarrow> jsval \<times> executor_call list" where
  "invoke run call =
     (case call of
        Inl e \<Rightarrow> (failedAction, [])
      | Inr c \<Rightarrow> (case run c of Inl e \<Rightarrow> (failedAction, [c]) | Inr result \<Rightarrow> (result, [c])))"

definition executeAction ::
  "(executor_call \<Rightarrow> exn + jsval) \<Rightarrow> IntentAnalysisResult \<Rightarrow> string \<Rightarrow> jsval \<times> executor_call list" where
  "executeAction run intentResult jwtToken =
     (case intent intentResult of
        CREATE_DAILY_LOG \<Rightarrow>
          invoke run (readEntities (entities intentResult)
            ''goalKeyword'' ''activity'' ''goodThing'' ''logDate'' (\<lambda>k a g d. CreateLog k a g d jwtToken))
      | CREATE_GOAL \<Rightarrow>
          invoke run (readEntities (entities intentResult)
            ''title'' ''description'' ''durationDays'' ''startDate'' (\<lambda>t d n s. CreateGoal t d n s jwtToken))
      | CREATE_REMINDER \<Rightarrow>
          invoke run (readEntities (entities intentResult)
            ''title'' ''description'' ''plannedDate'' ''goalKeyword'' (\<lambda>t d p k. CreateReminder t d p k jwtToken))
      | _ \<Rightarrow> (JNull, []))"

text \<open>
  The part of \<open>chat\<close> between the context and the system prompt. The token is optional;
  \<open>intentResult\<close> is what \<open>analyzeIntent\<close> returned for the message. The outcome holds the
  analysis (if one was made), the action result (\<open>None\<close> while \<open>executeAction\<close> was not
  entered) and the executors called. Comparing a confidence that is an array or an object
  may raise, and then the turn fails.
\<close>

record routing =
  analysis :: "IntentAnalysisResult option"
  actionResult :: "jsval option"
  invoked :: "executor_call list"

definition hasToken :: "string option \<Rightarrow> bool" where
  "hasToken jwtToken = (case jwtToken of None \<Rightarrow> False | Some t \<Rightarrow> t \<noteq> [])"

definition chatRoute ::
  "runtime \<Rightarrow> (executor_call \<Rightarrow> exn + jsval) \<Rightarrow> string option \<Rightarrow> IntentAnalysisResult \<Rightarrow> exn + routing" where
  "chatRoute rt run jwtToken intentResult =
     (if hasToken jwtToken then
        if intent intentResult \<noteq> CHAT_ONLY then
          bindE (ToNumber rt (confidence intentResult)) (\<lambda>c.
            if num_gt c (Fin (6/10)) then
              (case executeAction run intentResult (the jwtToken) of
                 (result, calls) \<Rightarrow>
                   Inr \<lparr>analysis = Some intentResult, actionResult = Some result, invoked = calls\<rparr>)
            else Inr \<lparr>analysis = Some intentResult, actionResult = None, invoked = []\<rparr>)
        else Inr \<lparr>analysis = Some intentResult, actionResult = None, invoked = []\<rparr>
      else Inr \<lparr>analysis = None, actionResult = None, invoked = []\<rparr>)"

text \<open>
  \<open>buildSystemPrompt\<close>: the text with the context of the user, then the action block
  when there is a truthy action result. \<open>stringify\<close> is \<open>JSON.stringify\<close>.
\<close>

definition buildSystemPrompt :: "string \<Rightarrow> (jsval \<Rightarrow> string) \<Rightarrow> jsval option \<Rightarrow> string" where
  "buildSystemPrompt prompt stringify result =
     (case result of
        None \<Rightarrow> prompt
      | Some v \<Rightarrow>
          if ToBoolean v
          then prompt @ [CHR 0x0A, CHR 0x0A] @ ''ACTION RESULT: '' @ stringify v @ [CHR 0x0A] @
            ''Acknowledge this action naturally in your response. If it succeeded, confirm what was done. If it failed, explain the issue helpfully.''
          else prompt)"

definition actionable :: "Intent \<Rightarrow> bool" where
  "actionable i = (i \<in> set [CREATE_DAILY_LOG, CREATE_GOAL, CREATE_REMINDER])"

definition statusQuestion :: IntentAnalysisResult where
  "statusQuestion = \<lparr>intent = GET_GOAL_STATUS,
     entities = JObject [(''goalKeyword'', JString ''AI project'')],
     confidence = JNumber (Fin (88/100)), rawMessage = []\<rparr>"

definition guitarLog :: IntentAnalysisResult where
  "guitarLog = \<lparr>intent = CREATE_DAILY_LOG,
     entities = JObject [(''goalKeyword'', JString ''guitar''),
                         (''activity'', JString ''practiced guitar for 30 minutes'')],
     confidence = JNumber (Fin (95/100)), rawMessage = []\<rparr>"

definition summaryQuestion :: IntentAnalysisResult where
  "summaryQuestion = \<lparr>intent = GET_TODAY_SUMMARY,
     entities = JObject [(''logDate'', JString ''2025-12-01'')],
     confidence = JNumber (Fin (93/100)), rawMessage = []\<rparr>"

definition okExecutor :: "executor_call \<Rightarrow> exn + jsval" where
  "okExecutor c = Inr (JObject [(''success'', JBool True)])"

definition plainRuntime :: runtime where
  "plainRuntime = exampleRuntime []"

section \<open>Goal-Tracker client\<close>

record Goal =
  goal_id :: nat
  title :: string
  isActive :: bool
  progress :: real

record CreateDailyLogData =
  goalId :: nat
  logDate :: string
  logNotes :: "string option"
  activities :: "string list option"
  goodThings :: "string list option"
  futurePlans :: "(string \<times> string option \<times> string) list option"
  clientId :: string

text \<open>
  A request sent to the service. The body of \<open>POST /goals\<close> is title, description,
  startDate, durationDays and color, in this order.
\<close>

datatype request =
    GetGoals
  | PostGoal string "string option" string jsnum string
  | PostDailyLog CreateDailyLogData

text \<open>
  A request that fails: the message of the response body, if there is one, and the message
  of the error itself.
\<close>

datatype failure = Failure "string option" string

text \<open>What the service answers, for the time of one chat turn.\<close>

record api =
  GET_goals :: "failure + Goal list"
  POST_goals :: "request \<Rightarrow> failure + Goal"
  POST_daily_logs :: "CreateDailyLogData \<Rightarrow> failure + jsval"

text \<open>\<open>error.response?.data?.message || error.message || fallback\<close>\<close>

fun failureMessage :: "failure \<Rightarrow> string \<Rightarrow> string" where
  "failureMessage (Failure (Some m) e) fallback = (if m \<noteq> [] then m else if e \<noteq> [] then e else fallback)"
| "failureMessage (Failure None e) fallback = (if e \<noteq> [] then e else fallback)"

definition rethrow :: "failure + 'a \<Rightarrow> string \<Rightarrow> exn + 'a" where
  "rethrow outcome fallback =
     (case outcome of Inl f \<Rightarrow> Inl (Error (failureMessage f fallback)) | Inr x \<Rightarrow> Inr x)"

text \<open>An outcome together with the requests that were sent to get it.\<close>

type_synonym 'a traced = "(exn + 'a) \<times> request list"

definition bindT :: "'a traced \<Rightarrow> ('a \<Rightarrow> 'b traced) \<Rightarrow> 'b traced" where
  "bindT m f =
     (case m of
        (Inl e, sent) \<Rightarrow> (Inl e, sent)
      | (Inr x, sent) \<Rightarrow> (case f x of (outcome, sent') \<Rightarrow> (outcome, sent @ sent')))"

definition getGoals :: "api \<Rightarrow> Goal list traced" where
  "getGoals a = (rethrow (GET_goals a) ''Failed to fetch goals'', [GetGoals])"

definition createGoal_request :: "api \<Rightarrow> request \<Rightarrow> Goal traced" where
  "createGoal_request a body = (rethrow (POST_goals a body) ''Failed to create goal'', [body])"

definition createDailyLog :: "api \<Rightarrow> CreateDailyLogData \<Rightarrow> jsval traced" where
  "createDailyLog a body = (rethrow (POST_daily_logs a body) ''Failed to create daily log'', [PostDailyLog body])"

subsection \<open>Fuzzy matching\<close>

fun includes_str :: "string \<Rightarrow> string \<Rightarrow> bool" where
  "includes_str [] sub = (sub = [])"
| "includes_str (c # cs) sub = (startsWith (c # cs) sub \<or> includes_str cs sub)"

text \<open>\<open>s.split(sep)\<close> for a separator of one character: never empty.\<close>

fun split :: "char \<Rightarrow> string \<Rightarrow> string list" where
  "split sep [] = [[]]"
| "split sep (c # cs) =
     (if c = sep then [] # split sep cs
      else (case split sep cs of [] \<Rightarrow> [[c]] | w # ws \<Rightarrow> (c # w) # ws))"

text \<open>\<open>new Set(xs)\<close>: the elements in the order of their first occurrence; its size is the length.\<close>

definition Set_add :: "'a list \<Rightarrow> 'a \<Rightarrow> 'a list" where
  "Set_add s x = (if x \<in> set s then s else s @ [x])"

definition new_Set :: "'a list \<Rightarrow> 'a list" where
  "new_Set xs = foldl Set_add [] xs"

definition calculateSimilarity :: "string \<Rightarrow> string \<Rightarrow> real" where
  "calculateSimilarity str1 str2 =
     (let words1 = new_Set (split CHR '' '' str1);
          words2 = new_Set (split CHR '' '' str2);
          intersection = new_Set (filter (\<lambda>x. x \<in> set words2) words1);
          union = new_Set (words1 @ words2)
      in real (length intersection) / real (length union))"

text \<open>
  \<open>findGoalByKeyword\<close> on the goals that \<open>getGoals\<close> returned. \<open>Array.prototype.sort\<close>
  is stable, and so is \<open>sort_key\<close>; the comparator \<open>b.similarity - a.similarity\<close> orders
  by decreasing similarity.
\<close>

definition substringMatch :: "runtime \<Rightarrow> string \<Rightarrow> Goal \<Rightarrow> bool" where
  "substringMatch rt lowerKeyword g =
     (includes_str (toLowerCase rt (title g)) lowerKeyword \<or>
      includes_str lowerKeyword (toLowerCase rt (title g)))"

definition findGoalAmong :: "runtime \<Rightarrow> Goal list \<Rightarrow> string \<Rightarrow> Goal option" where
  "findGoalAmong rt goals keyword =
     (if goals = [] then None
      else
        let lowerKeyword = trim rt (toLowerCase rt keyword) in
        case find (substringMatch rt lowerKeyword) goals of
          Some exactMatch \<Rightarrow> Some exactMatch
        | None \<Rightarrow>
            let matches = map (\<lambda>goal. (goal, calculateSimilarity lowerKeyword (toLowerCase rt (title goal)))) goals;
                sorted = sort_key (\<lambda>m. - snd m) matches
            in if snd (hd sorted) > 1/2 then Some (fst (hd sorted)) else None)"

definition findGoalByKeyword :: "runtime \<Rightarrow> api \<Rightarrow> string \<Rightarrow> Goal option traced" where
  "findGoalByKeyword rt a keyword = bindT (getGoals a) (\<lambda>goals. (Inr (findGoalAmong rt goals keyword), []))"

definition namedGoal :: "nat \<Rightarrow> string \<Rightarrow> Goal" where
  "namedGoal n t = \<lparr>goal_id = n, title = t, isActive = True, progress = 0\<rparr>"

definition threeGoals :: "Goal list" where
  "threeGoals = [namedGoal 1 ''Learn Guitar'', namedGoal 2 ''AI Assistant Project'', namedGoal 3 ''Fitness Challenge'']"

text \<open>
  The similarity as the specification words it: the Jaccard similarity of the two sets of
  whitespace-tokenized words.
\<close>

fun splitWhen :: "(char \<Rightarrow> bool) \<Rightarrow> string \<Rightarrow> string list" where
  "splitWhen sep [] = [[]]"
| "splitWhen sep (c # cs) =
     (if sep c then [] # splitWhen sep cs
      else (case splitWhen sep cs of [] \<Rightarrow> [[c]] | w # ws \<Rightarrow> (c # w) # ws))"

definition spec_words :: "string \<Rightarrow> string list" where
  "spec_words s = remdups (filter (\<lambda>w. w \<noteq> []) (splitWhen is_space s))"

definition spec_similarity :: "string \<Rightarrow> string \<Rightarrow> real" where
  "spec_similarity a b =
     real (length (filter (\<lambda>w. w \<in> set (spec_words b)) (spec_words a))) /
     real (length (remdups (spec_words a @ spec_words b)))"

definition doubleSpaceGoal :: Goal where
  "doubleSpaceGoal = namedGoal 1 ''Learn  Guitar''"

definition threeGoalsApi :: api where
  "threeGoalsApi = \<lparr>GET_goals = Inr threeGoals,
     POST_goals = (\<lambda>body. Inl (Failure None ''Network Error'')),
     POST_daily_logs = (\<lambda>body. Inr (JObject [(''id'', JNumber (Fin 1))]))\<rparr>"

section \<open>Action executors\<close>

text \<open>
  What an executor takes from its surroundings: the current date as \<open>YYYY-MM-DD\<close>, the
  value of \<open>Math.random()\<close> (at least 0 and less than 1), a fresh identifier, and the
  formatting of numbers and dates in messages.
\<close>

record env =
  today :: string
  random :: real
  uuidv4 :: string
  numberToString :: "jsnum \<Rightarrow> string"
  toLocaleDateString :: "string \<Rightarrow> string"
  toLocaleTimeString :: "string \<Rightarrow> string"

text \<open>
  The three result interfaces share \<open>success\<close> and \<open>message\<close>; the record is their
  union, and a field that an executor does not set is \<open>None\<close> (or \<open>False\<close>). An available
  goal is listed with its id, title and progress.
\<close>

record ExecutorResult =
  success :: bool
  message :: string
  goal :: "Goal option"
  log' :: "jsval option"
  goalTitle :: "string option"
  needsGoalSelection :: bool
  availableGoals :: "(nat \<times> string \<times> real) list option"
  reminder :: "jsval option"

definition plain :: "bool \<Rightarrow> string \<Rightarrow> ExecutorResult" where
  "plain ok m = \<lparr>success = ok, message = m, goal = None, log' = None, goalTitle = None,
     needsGoalSelection = False, availableGoals = None, reminder = None\<rparr>"

definition failed :: "string \<Rightarrow> ExecutorResult" where
  "failed m = plain False m"

text \<open>The message of a caught error; only the errors of the client carry one here.\<close>

fun exnMessage :: "exn \<Rightarrow> string" where
  "exnMessage (Error m) = m"
| "exnMessage _ = []"

subsection \<open>CreateGoal\<close>

definition GOAL_COLORS :: "string list" where
  "GOAL_COLORS = [''#FF6B6B'', ''#4ECDC4'', ''#45B7D1'', ''#FFA07A'', ''#98D8C8'',
                  ''#F7DC6F'', ''#BB8FCE'', ''#85C1E2'', ''#F8B195'', ''#C06C84'']"

definition getRandomColor :: "env \<Rightarrow> string" where
  "getRandomColor e = GOAL_COLORS ! nat \<lfloor>random e * real (length GOAL_COLORS)\<rfloor>"

text \<open>
  \<open>createGoal\<close> with the parameters title, description, durationDays, startDate, color and
  jwtToken (the token only sets a header). The result comes with the requests sent.
\<close>

definition createGoal ::
  "api \<Rightarrow> env \<Rightarrow> string \<Rightarrow> string option \<Rightarrow> jsnum \<Rightarrow> string option \<Rightarrow> string option \<Rightarrow> string
     \<Rightarrow> ExecutorResult \<times> request list" where
  "createGoal a e title' description durationDays startDate color jwtToken =
     (let startDate' = (case startDate of None \<Rightarrow> today e | Some d \<Rightarrow> d) in
      if num_le durationDays (Fin 0) \<or> num_gt durationDays (Fin 3650)
      then (failed ''Goal duration must be between 1 and 3650 days (10 years).'', [])
      else
        let goalColor = (case color of None \<Rightarrow> getRandomColor e
                         | Some c \<Rightarrow> if c \<noteq> [] then c else getRandomColor e)
        in case createGoal_request a (PostGoal title' description startDate' durationDays goalColor) of
             (Inr created, sent) \<Rightarrow>
               ((plain True (''Created \"'' @ title' @ ''\" goal for '' @ numberToString e durationDays @ '' days!''))
                  \<lparr>goal := Some created\<rparr>, sent)
           | (Inl err, sent) \<Rightarrow> (failed (''Failed to create goal: '' @ exnMessage err), sent))"

subsection \<open>Which goal: CreateLog and CreateReminder\<close>

datatype resolution = Resolved Goal | Answer ExecutorResult

definition hasKeyword :: "string option \<Rightarrow> bool" where
  "hasKeyword goalKeyword = (case goalKeyword of None \<Rightarrow> False | Some k \<Rightarrow> k \<noteq> [])"

definition selection :: "string \<Rightarrow> Goal list \<Rightarrow> ExecutorResult" where
  "selection m activeGoals =
     (failed m)\<lparr>needsGoalSelection := True,
                availableGoals := Some (map (\<lambda>g. (goal_id g, title g, progress g)) activeGoals)\<rparr>"

text \<open>Lines 45 to 97 of \<open>createLog\<close>: the goal, or the answer returned at once.\<close>

definition resolveLogGoal :: "runtime \<Rightarrow> api \<Rightarrow> string option \<Rightarrow> resolution traced" where
  "resolveLogGoal rt a goalKeyword =
     (if hasKeyword goalKeyword then
        bindT (findGoalByKeyword rt a (the goalKeyword)) (\<lambda>found.
          case found of
            Some g \<Rightarrow> (Inr (Resolved g), [])
          | None \<Rightarrow>
              bindT (getGoals a) (\<lambda>allGoals.
                let activeGoals = filter isActive allGoals in
                if length activeGoals = 0
                then (Inr (Answer (failed
                  ''You don't have any active goals yet. Would you like to create one first?'')), [])
                else (Inr (Answer (selection
                  (''I couldn't find a goal matching \"'' @ the goalKeyword @ ''\". Which goal did you mean?'')
                  activeGoals)), [])))
      else
        bindT (getGoals a) (\<lambda>allGoals.
          let activeGoals = filter isActive allGoals in
          if length activeGoals = 0
          then (Inr (Answer (failed
            ''You don't have any active goals yet. Would you like to create one first?'')), [])
          else if length activeGoals = 1 then (Inr (Resolved (hd activeGoals)), [])
          else (Inr (Answer (selection ''Which goal should I log this for?'' activeGoals)), [])))"

definition given :: "string option \<Rightarrow> string list" where
  "given v = (case v of None \<Rightarrow> [] | Some s \<Rightarrow> if s \<noteq> [] then [s] else [])"

definition createLog ::
  "runtime \<Rightarrow> api \<Rightarrow> env \<Rightarrow> string option \<Rightarrow> string option \<Rightarrow> string option \<Rightarrow> string option \<Rightarrow> string option \<Rightarrow> string
     \<Rightarrow> ExecutorResult \<times> request list" where
  "createLog rt a e goalKeyword activity goodThing note logDate' jwtToken =
     (case resolveLogGoal rt a goalKeyword of
        (Inl err, sent) \<Rightarrow> (failed (''Failed to create log: '' @ exnMessage err), sent)
      | (Inr (Answer r), sent) \<Rightarrow> (r, sent)
      | (Inr (Resolved g), sent) \<Rightarrow>
          let logData = \<lparr>goalId = goal_id g,
                logDate = (case logDate' of None \<Rightarrow> today e | Some d \<Rightarrow> d),
                logNotes = note,
                activities = (if length (given activity) > 0 then Some (given activity) else None),
                goodThings = (if length (given goodThing) > 0 then Some (given goodThing) else None),
                futurePlans = None,
                clientId = uuidv4 e\<rparr>
          in case createDailyLog a logData of
               (Inr created, sent') \<Rightarrow>
                 ((plain True (''Logged successfully for \"'' @ title g @ ''\"!''))
                    \<lparr>log' := Some created, goalTitle := Some (title g)\<rparr>, sent @ sent')
             | (Inl err, sent') \<Rightarrow> (failed (''Failed to create log: '' @ exnMessage err), sent @ sent'))"

text \<open>Lines 39 to 59 of \<open>createReminder\<close>.\<close>

definition resolveReminderGoal :: "runtime \<Rightarrow> api \<Rightarrow> string option \<Rightarrow> resolution traced" where
  "resolveReminderGoal rt a goalKeyword =
     bindT (if hasKeyword goalKeyword then findGoalByKeyword rt a (the goalKeyword) else (Inr None, []))
       (\<lambda>found.
          case found of
            Some g \<Rightarrow> (Inr (Resolved g), [])
          | None \<Rightarrow>
              bindT (getGoals a) (\<lambda>allGoals.
                let activeGoals = filter isActive allGoals in
                if length activeGoals = 0
                then (Inr (Answer (failed
                  ''You don't have any active goals. Create a goal first to add reminders to.'')), [])
                else (Inr (Resolved (hd activeGoals)), [])))"

definition createReminder ::
  "runtime \<Rightarrow> api \<Rightarrow> env \<Rightarrow> string \<Rightarrow> string option \<Rightarrow> string \<Rightarrow> string option \<Rightarrow> string
     \<Rightarrow> ExecutorResult \<times> request list" where
  "createReminder rt a e title' description plannedDate goalKeyword jwtToken =
     (case resolveReminderGoal rt a goalKeyword of
        (Inl err, sent) \<Rightarrow> (failed (''Failed to create reminder: '' @ exnMessage err), sent)
      | (Inr (Answer r), sent) \<Rightarrow> (r, sent)
      | (Inr (Resolved g), sent) \<Rightarrow>
          let logData = \<lparr>goalId = goal_id g, logDate = today e, logNotes = None,
                activities = None, goodThings = None,
                futurePlans = Some [(title', description, plannedDate)],
                clientId = uuidv4 e\<rparr>
          in case createDailyLog a logData of
               (Inr created, sent') \<Rightarrow>
                 ((plain True (''Reminder set for \"'' @ title' @ ''\" on '' @ toLocaleDateString e plannedDate
                            @ '' at '' @ toLocaleTimeString e plannedDate @ ''!''))
                    \<lparr>reminder := Some created\<rparr>, sent @ sent')
             | (Inl err, sent') \<Rightarrow> (failed (''Failed to create reminder: '' @ exnMessage err), sent @ sent'))"

text \<open>Examples: a service that accepts everything, and the surroundings of a turn.\<close>

definition acceptingApi :: "Goal list \<Rightarrow> api" where
  "acceptingApi goals = \<lparr>GET_goals = Inr goals,
     POST_goals = (\<lambda>body. Inr (namedGoal 4 ''Nap'')),
     POST_daily_logs = (\<lambda>body. Inr (JObject [(''id'', JNumber (Fin 1))]))\<rparr>"

definition exampleEnv :: env where
  "exampleEnv = \<lparr>today = ''2025-12-01'', random = 0, uuidv4 = ''c0ffee'',
     numberToString = (\<lambda>n. ''?''), toLocaleDateString = (\<lambda>d. d), toLocaleTimeString = (\<lambda>d. d)\<rparr>"

definition fitnessOnly :: "Goal list" where
  "fitnessOnly = [namedGoal 3 ''Fitness Challenge'']"

section \<open>Monitoring scheduler\<close>

text \<open>Comparison of two strings with \<open><\<close> and \<open><=\<close>: by code units, a proper prefix first.\<close>

fun str_lt :: "string \<Rightarrow> string \<Rightarrow> bool" where
  "str_lt [] [] = False"
| "str_lt [] (y # ys) = True"
| "str_lt (x # xs) [] = False"
| "str_lt (x # xs) (y # ys) = ((of_char x :: nat) < of_char y \<or> (x = y \<and> str_lt xs ys))"

definition str_le :: "string \<Rightarrow> string \<Rightarrow> bool" where
  "str_le a b = (\<not> str_lt b a)"

definition str_ge :: "string \<Rightarrow> string \<Rightarrow> bool" where
  "str_ge a b = (\<not> str_lt a b)"

text \<open>
  \<open>n.toString().padStart(2, '0')\<close> for an hour or a minute, that is for \<open>n\<close> below 100.
\<close>

definition digit :: "nat \<Rightarrow> char" where
  "digit n = ''0123456789'' ! n"

definition padStart2 :: "nat \<Rightarrow> string" where
  "padStart2 n = (if n < 10 then [CHR ''0'', digit n] else [digit (n div 10), digit (n mod 10)])"

definition currentTime :: "nat \<Rightarrow> nat \<Rightarrow> string" where
  "currentTime hours minutes = padStart2 hours @ '':'' @ padStart2 minutes"

record ai_preferences =
  wake_time :: string
  sleep_time :: string

text \<open>
  \<open>isWithinActiveHours\<close>: \<open>rows\<close> is the outcome of the query on \<open>ai_preferences\<close>, the two
  numbers are \<open>getHours()\<close> and \<open>getMinutes()\<close> of the current local time.
\<close>

definition isWithinActiveHours :: "exn + ai_preferences list \<Rightarrow> nat \<Rightarrow> nat \<Rightarrow> exn + bool" where
  "isWithinActiveHours rows hours minutes =
     bindE rows (\<lambda>rs.
       case rs of
         [] \<Rightarrow> Inr True
       | row # _ \<Rightarrow>
           Inr (str_ge (currentTime hours minutes) (wake_time row) \<and>
                str_le (currentTime hours minutes) (sleep_time row)))"

text \<open>
  One cycle for one user. The effects are listed in their order; an email is known by its
  id, \<open>stored\<close> holds the ids already in \<open>monitored_messages\<close> for the user and the source,
  and \<open>insertable\<close> tells whether storing an email succeeds. Classification does not raise.
\<close>

datatype effect = FetchEmails | Classify string | StoreMessage string | UpdateLastSync

fun processEmails :: "(string \<Rightarrow> bool) \<Rightarrow> string list \<Rightarrow> string list \<Rightarrow> effect list \<times> string list" where
  "processEmails insertable stored [] = ([], stored)"
| "processEmails insertable stored (email # emails) =
     (if email \<in> set stored then processEmails insertable stored emails
      else if insertable email then
        (case processEmails insertable (email # stored) emails of
           (effects, stored') \<Rightarrow> (Classify email # StoreMessage email # effects, stored'))
      else
        (case processEmails insertable stored emails of
           (effects, stored') \<Rightarrow> (Classify email # effects, stored')))"

definition checkGmailForUser ::
  "exn + ai_preferences list \<Rightarrow> nat \<Rightarrow> nat \<Rightarrow> exn + string list \<Rightarrow> (string \<Rightarrow> bool) \<Rightarrow> string list
     \<Rightarrow> effect list \<times> string list" where
  "checkGmailForUser rows hours minutes fetched insertable stored =
     (case isWithinActiveHours rows hours minutes of
        Inl e \<Rightarrow> ([], stored)
      | Inr False \<Rightarrow> ([], stored)
      | Inr True \<Rightarrow>
          (case fetched of
             Inl e \<Rightarrow> ([FetchEmails], stored)
           | Inr emails \<Rightarrow>
               (case processEmails insertable stored emails of
                  (effects, stored') \<Rightarrow> (FetchEmails # effects @ [UpdateLastSync], stored'))))"

text \<open>A row as the table creates it: the column defaults, as the database returns a time.\<close>

definition defaultPreferences :: ai_preferences where
  "defaultPreferences = \<lparr>wake_time = ''08:00:00'', sleep_time = ''21:00:00''\<rparr>"

section \<open>Properties\<close>

subsection \<open>The classifier and the feedback route\<close>

lemma bandCategory_agrees: "agrees_with_band s (bandCategory s)"
  by (cases s) (auto simp: agrees_with_band_def bandCategory_def num_ge_def num_le_def)

lemma chooseCategory_derived:
  "\<not> acceptedCategory c \<Longrightarrow> chooseCategory c s = bandCategory s"
  by (cases c) (auto simp: acceptedCategory_def)

lemma chooseCategory_accepted:
  "acceptedCategory c \<Longrightarrow> JString (chooseCategory c s) = c"
  by (cases c) (auto simp: acceptedCategory_def)

lemma clamp_Fin:
  "Math_max (Fin 1) (Math_min (Fin 10) (Fin x)) = Fin (if x < 1 then 1 else if 10 < x then 10 else x)"
  by (simp add: Math_max_def Math_min_def)

lemma clamp_cases:
  "(num_lt n (Fin 1) \<longrightarrow> Math_max (Fin 1) (Math_min (Fin 10) n) = Fin 1) \<and>
   (num_gt n (Fin 10) \<longrightarrow> Math_max (Fin 1) (Math_min (Fin 10) n) = Fin 10) \<and>
   (num_le (Fin 1) n \<and> num_le n (Fin 10) \<longrightarrow> Math_max (Fin 1) (Math_min (Fin 10) n) = n)"
  by (cases n) (auto simp: Math_max_def Math_min_def num_gt_def num_le_def)

lemma classificationOfParsed_number:
  assumes "get_prop parsed ''score'' = Inr (JNumber n)"
  shows "\<exists>r. classificationOfParsed rt parsed = Inr r \<and>
             score r = Math_max (Fin 1) (Math_min (Fin 10) n)"
  using assms
  by (cases parsed) (auto simp: classificationOfParsed_def bindE_def Let_def)

lemma fallbacks_agree:
  "agrees_with_band (score parseFallback) (category parseFallback)"
  "agrees_with_band (score classifyFallback) (category classifyFallback)"
  by (simp_all add: parseFallback_def classifyFallback_def agrees_with_band_def num_ge_def num_le_def)

lemma classify_agrees:
  assumes "\<forall>c. modelCategory rt gateway = Some c \<longrightarrow> \<not> acceptedCategory c"
  shows "agrees_with_band (score (classify rt gateway)) (category (classify rt gateway))"
proof (cases gateway)
  case (Inl e)
  then show ?thesis
    by (simp add: classify_def fallbacks_agree)
next
  case (Inr response)
  show ?thesis
  proof (cases "JSON_parse rt (cleanResponse rt response)")
    case None
    with Inr show ?thesis
      by (simp add: classify_def parseClassificationResponse_def fallbacks_agree)
  next
    case (Some parsed)
    show ?thesis
    proof (cases "classificationOfParsed rt parsed")
      case (Inl e)
      with Inr Some show ?thesis
        by (simp add: classify_def parseClassificationResponse_def fallbacks_agree)
    next
      case r: (Inr r)
      then obtain c s where c: "get_prop parsed ''category'' = Inr c"
        and rr: "score r = s" "category r = chooseCategory c s"
        by (auto simp: classificationOfParsed_def bindE_def Let_def split: sum.splits)
      from assms Inr Some c have "\<not> acceptedCategory c"
        by (simp add: modelCategory_def)
      then have "category r = bandCategory (score r)"
        using rr by (simp add: chooseCategory_derived)
      then show ?thesis
        using Inr Some r bandCategory_agrees [of "score r"]
        by (simp add: classify_def parseClassificationResponse_def)
    qed
  qed
qed

lemma newCategory_band: "newCategory s = bandCategory s"
  by (simp add: newCategory_def bandCategory_def)

lemma updateMessage_hit:
  "message_id (updateMessage mid s c m) = mid \<Longrightarrow>
   importance_score (updateMessage mid s c m) = s \<and> classification (updateMessage mid s c m) = c"
  by (cases "message_id m = mid") (simp_all add: updateMessage_def)

lemma postFeedback_recorded:
  assumes "postFeedback table stored userId messageId correctedScore = (FeedbackRecorded s c, table')"
  shows "s = correctedScore \<and> c = newCategory correctedScore \<and>
         table' = map (updateMessage messageId s c) table"
proof -
  have v: "feedbackSchema_valid correctedScore"
    using assms by (cases "feedbackSchema_valid correctedScore") (simp_all add: postFeedback_def)
  then obtain msg where f: "find (\<lambda>m. message_id m = messageId) table = Some msg"
    using assms by (cases "find (\<lambda>m. message_id m = messageId) table") (simp_all add: postFeedback_def)
  have o: "owner_id msg = userId"
    using assms v f by (cases "owner_id msg = userId") (simp_all add: postFeedback_def)
  have "stored"
    using assms v f o by (cases stored) (simp_all add: postFeedback_def)
  then show ?thesis
    using assms v f o by (auto simp: postFeedback_def)
qed

lemma postFeedback_agrees:
  assumes "postFeedback table stored userId messageId correctedScore = (FeedbackRecorded s c, table')"
  shows "agrees_with_band s c \<and>
         (\<forall>m \<in> set table'. message_id m = messageId \<longrightarrow>
            agrees_with_band (importance_score m) (classification m))"
proof -
  from postFeedback_recorded [OF assms]
  have c: "c = bandCategory s" and t: "table' = map (updateMessage messageId s c) table"
    by (simp_all add: newCategory_band)
  have a: "agrees_with_band s c"
    using c bandCategory_agrees by simp
  have "agrees_with_band (importance_score m) (classification m)"
    if "m \<in> set table'" "message_id m = messageId" for m
  proof -
    from that(1) t obtain m0 where "m = updateMessage messageId s c m0"
      by auto
    with that(2) updateMessage_hit [of messageId s c m0] a show ?thesis
      by simp
  qed
  with a show ?thesis by blast
qed

lemma classify_accepted:
  assumes "JSON_parse rt (cleanResponse rt response) = Some parsed"
    and "get_prop parsed ''score'' = Inr sv" and "ToNumber rt sv = Inr n"
    and "get_prop parsed ''category'' = Inr c" and "acceptedCategory c"
  shows "JString (category (classify rt (Inr response))) = c"
    and "score (classify rt (Inr response)) = Math_max (Fin 1) (Math_min (Fin 10) n)"
proof -
  obtain r where "get_prop parsed ''reasoning'' = Inr r"
    using assms(2) by (cases parsed) simp_all
  then have "classificationOfParsed rt parsed =
      Inr \<lparr>score = Math_max (Fin 1) (Math_min (Fin 10) n),
           category = chooseCategory c (Math_max (Fin 1) (Math_min (Fin 10) n)),
           reasoning = js_or r (JString ''No reasoning provided'')\<rparr>"
    using assms(2-4) by (simp add: classificationOfParsed_def bindE_def Let_def)
  then have e: "classify rt (Inr response) =
      \<lparr>score = Math_max (Fin 1) (Math_min (Fin 10) n),
       category = chooseCategory c (Math_max (Fin 1) (Math_min (Fin 10) n)),
       reasoning = js_or r (JString ''No reasoning provided'')\<rparr>"
    using assms(1) by (simp add: classify_def parseClassificationResponse_def)
  show "JString (category (classify rt (Inr response))) = c"
    unfolding e using chooseCategory_accepted [OF assms(5)] by simp
  show "score (classify rt (Inr response)) = Math_max (Fin 1) (Math_min (Fin 10) n)"
    unfolding e by simp
qed

lemma classify_conversion_raises:
  assumes "JSON_parse rt (cleanResponse rt response) = Some parsed"
    and "get_prop parsed ''score'' = Inr sv" and "ToNumber rt sv = Inl e"
  shows "classify rt (Inr response) = parseFallback"
  using assms by (simp add: classify_def parseClassificationResponse_def classificationOfParsed_def bindE_def)

text \<open>
  C1 (as amended). The category of a classification result agrees with the band of its
  clamped score (a score of 8 or more is high, from 5 to 7 medium, 4 or less low) whenever
  the model's response carries no category that is one of the three names: on a failed
  call, on a response that does not parse, and when the category is missing or invalid
  and is therefore derived from the score. It agrees as well when turning the score into a
  number raises: the result is then the fallback, 5 and medium. After a recorded feedback,
  the reply and the updated message agree. When the category of the model is one of the
  three names and the score turns into a number, the result has that category and the
  clamped score, whether or not they agree.
\<close>

theorem C1_category_agrees_when_derived:
  "((\<forall>c. modelCategory rt gateway = Some c \<longrightarrow> \<not> acceptedCategory c) \<longrightarrow>
      agrees_with_band (score (classify rt gateway)) (category (classify rt gateway))) \<and>
   (postFeedback table stored userId messageId correctedScore = (FeedbackRecorded s c, table') \<longrightarrow>
      agrees_with_band s c \<and>
      (\<forall>m \<in> set table'. message_id m = messageId \<longrightarrow>
         agrees_with_band (importance_score m) (classification m))) \<and>
   (JSON_parse rt (cleanResponse rt response) = Some parsed \<and>
    get_prop parsed ''score'' = Inr sv \<and> ToNumber rt sv = Inl e \<longrightarrow>
      classify rt (Inr response) = parseFallback \<and>
      agrees_with_band (score (classify rt (Inr response))) (category (classify rt (Inr response)))) \<and>
   (JSON_parse rt (cleanResponse rt response) = Some parsed \<and>
    get_prop parsed ''score'' = Inr sv \<and> ToNumber rt sv = Inr n \<and>
    get_prop parsed ''category'' = Inr mc \<and> acceptedCategory mc \<longrightarrow>
      JString (category (classify rt (Inr response))) = mc \<and>
      score (classify rt (Inr response)) = Math_max (Fin 1) (Math_min (Fin 10) n))"
proof -
  have 3: "classify rt (Inr response) = parseFallback \<and>
      agrees_with_band (score (classify rt (Inr response))) (category (classify rt (Inr response)))"
    if "JSON_parse rt (cleanResponse rt response) = Some parsed"
      "get_prop parsed ''score'' = Inr sv" "ToNumber rt sv = Inl e"
    using classify_conversion_raises [OF that] fallbacks_agree(1) by simp
  have 4: "JString (category (classify rt (Inr response))) = mc \<and>
      score (classify rt (Inr response)) = Math_max (Fin 1) (Math_min (Fin 10) n)"
    if "JSON_parse rt (cleanResponse rt response) = Some parsed"
      "get_prop parsed ''score'' = Inr sv" "ToNumber rt sv = Inr n"
      "get_prop parsed ''category'' = Inr mc" "acceptedCategory mc"
    using classify_accepted [OF that] by simp
  from 3 4 classify_agrees [of rt gateway]
    postFeedback_agrees [of table stored userId messageId correctedScore s c table']
  show ?thesis
    by blast
qed

theorem C1_category_agrees_when_derived_witness:
  "agrees_with_band (score (classify score15Runtime (Inr fencedScore15)))
     (category (classify score15Runtime (Inr fencedScore15))) \<and>
   postFeedback exampleTable True 7 1 (Fin 9) =
     (FeedbackRecorded (Fin 9) ''high'',
      [\<lparr>message_id = 1, owner_id = 7, importance_score = Fin 9, classification = ''high''\<rparr>,
       \<lparr>message_id = 2, owner_id = 7, importance_score = Fin 6, classification = ''medium''\<rparr>]) \<and>
   agrees_with_band (Fin 9) ''high'' \<and>
   classify oddScoreRuntime (Inr oddScore) = parseFallback \<and>
   category (classify score9LowRuntime (Inr score9Low)) = ''low'' \<and>
   score (classify score9LowRuntime (Inr score9Low)) = Fin 9"
proof -
  let ?t = "[\<lparr>message_id = 1, owner_id = 7, importance_score = Fin 9, classification = ''high''\<rparr>,
       \<lparr>message_id = 2, owner_id = 7, importance_score = Fin 6, classification = ''medium''\<rparr>]"
  let ?odd = "JObject [(''score'', JObject [(''valueOf'', JNumber (Fin 1)), (''toString'', JNumber (Fin 2))]),
                (''category'', JString ''high'')]"
  let ?low = "JObject [(''score'', JNumber (Fin 9)), (''category'', JString ''low'')]"
  have m: "modelCategory score15Runtime (Inr fencedScore15) = Some JUndefined"
    by (simp add: modelCategory_def score15Runtime_def exampleRuntime_def fencedScore15_def
        cleanResponse_def asciiTrim_def is_space_def startsWith_def)
  have p: "postFeedback exampleTable True 7 1 (Fin 9) = (FeedbackRecorded (Fin 9) ''high'', ?t)"
    by (simp add: postFeedback_def exampleTable_def feedbackSchema_valid_def newCategory_def
        updateMessage_def num_ge_def num_le_def)
  have o: "JSON_parse oddScoreRuntime (cleanResponse oddScoreRuntime oddScore) = Some ?odd"
    by (simp add: oddScoreRuntime_def exampleRuntime_def oddScore_def cleanResponse_def asciiTrim_def
        is_space_def startsWith_def)
  have os: "get_prop ?odd ''score'' = Inr (JObject [(''valueOf'', JNumber (Fin 1)), (''toString'', JNumber (Fin 2))])"
    by simp
  have ot: "ToNumber oddScoreRuntime (JObject [(''valueOf'', JNumber (Fin 1)), (''toString'', JNumber (Fin 2))])
      = Inl TypeError"
    by (simp add: oddScoreRuntime_def)
  have l: "JSON_parse score9LowRuntime (cleanResponse score9LowRuntime score9Low) = Some ?low"
    by (simp add: score9LowRuntime_def exampleRuntime_def score9Low_def cleanResponse_def asciiTrim_def
        is_space_def startsWith_def)
  have ls: "get_prop ?low ''score'' = Inr (JNumber (Fin 9))" "get_prop ?low ''category'' = Inr (JString ''low'')"
    "ToNumber score9LowRuntime (JNumber (Fin 9)) = Inr (Fin 9)" "acceptedCategory (JString ''low'')"
    "Math_max (Fin 1) (Math_min (Fin 10) (Fin 9)) = Fin 9"
    by (simp_all add: acceptedCategory_def Math_max_def Math_min_def)
  note w1 = C1_category_agrees_when_derived [where rt = score15Runtime and gateway = "Inr fencedScore15"
      and table = exampleTable and stored = True and userId = 7 and messageId = 1
      and correctedScore = "Fin 9" and s = "Fin 9" and c = "''high''" and table' = ?t]
  note w2 = C1_category_agrees_when_derived [where rt = oddScoreRuntime and response = oddScore
      and parsed = ?odd and sv = "JObject [(''valueOf'', JNumber (Fin 1)), (''toString'', JNumber (Fin 2))]"
      and e = TypeError]
  note w3 = C1_category_agrees_when_derived [where rt = score9LowRuntime and response = score9Low
      and parsed = ?low and sv = "JNumber (Fin 9)" and n = "Fin 9" and mc = "JString ''low''"]
  have 1: "agrees_with_band (score (classify score15Runtime (Inr fencedScore15)))
     (category (classify score15Runtime (Inr fencedScore15)))"
    using w1 m by (simp add: acceptedCategory_def)
  have 2: "agrees_with_band (Fin 9) ''high''"
    using w1 p by blast
  have 3: "classify oddScoreRuntime (Inr oddScore) = parseFallback"
    using w2 o os ot by blast
  have 4: "JString (category (classify score9LowRuntime (Inr score9Low))) = JString ''low'' \<and>
      score (classify score9LowRuntime (Inr score9Low)) = Fin 9"
    using w3 l ls by presburger
  from 1 2 3 4 p show ?thesis
    by simp
qed

text \<open>
  C1 as stated fails: the response \<open>{"score": 9, "category": "low"}\<close> is surfaced with
  score 9 and category low.
\<close>

theorem C1_valid_category_kept_counterexample:
  "\<not> agrees_with_band (score (classify score9LowRuntime (Inr score9Low)))
        (category (classify score9LowRuntime (Inr score9Low)))"
  by (simp add: classify_def parseClassificationResponse_def score9LowRuntime_def exampleRuntime_def
      score9Low_def cleanResponse_def asciiTrim_def is_space_def startsWith_def classificationOfParsed_def
      bindE_def Math_max_def Math_min_def agrees_with_band_def num_ge_def num_le_def js_or_def)

text \<open>
  C8. When the score of the model's response is a number, the score of the classification
  result is 1 for a number below 1, 10 for a number above 10, and the number itself when it
  lies between 1 and 10.
\<close>

theorem C8_score_clamped_to_nearest_boundary:
  assumes "JSON_parse rt (cleanResponse rt response) = Some parsed"
    and "get_prop parsed ''score'' = Inr (JNumber n)"
  shows "(num_lt n (Fin 1) \<longrightarrow> score (classify rt (Inr response)) = Fin 1) \<and>
         (num_gt n (Fin 10) \<longrightarrow> score (classify rt (Inr response)) = Fin 10) \<and>
         (num_le (Fin 1) n \<and> num_le n (Fin 10) \<longrightarrow> score (classify rt (Inr response)) = n)"
proof -
  obtain r where r: "classificationOfParsed rt parsed = Inr r"
    and s: "score r = Math_max (Fin 1) (Math_min (Fin 10) n)"
    using classificationOfParsed_number [OF assms(2)] by blast
  have "classify rt (Inr response) = r"
    using assms(1) r by (simp add: classify_def parseClassificationResponse_def)
  then show ?thesis
    using s clamp_cases [of n] by simp
qed

theorem C8_score_clamped_to_nearest_boundary_witness:
  "score (classify score15Runtime (Inr fencedScore15)) = Fin 10"
  using C8_score_clamped_to_nearest_boundary
    [of score15Runtime fencedScore15 "JObject [(''score'', JNumber (Fin 15))]" "Fin 15"]
  by (simp add: score15Runtime_def exampleRuntime_def fencedScore15_def cleanResponse_def asciiTrim_def
      is_space_def startsWith_def num_gt_def)

subsection \<open>The intent analyzer\<close>

lemma parseIntentResponse_malformed:
  "JSON_parse rt (cleanResponse rt response) = None \<Longrightarrow> parseIntentResponse rt response = chatOnly response"
  by (simp add: parseIntentResponse_def)

lemma parseIntentResponse_unrecognized:
  assumes "JSON_parse rt (cleanResponse rt response) = Some parsed"
    and "get_prop parsed ''intent'' = Inr iv" and "recognizedIntent iv = None"
  shows "parseIntentResponse rt response = chatOnly response"
  using assms by (simp add: parseIntentResponse_def intentOfParsed_def bindE_def)

lemma parseIntentResponse_no_property:
  assumes "JSON_parse rt (cleanResponse rt response) = Some parsed"
    and "get_prop parsed ''intent'' = Inl e"
  shows "parseIntentResponse rt response = chatOnly response"
  using assms by (simp add: parseIntentResponse_def intentOfParsed_def bindE_def)

text \<open>
  C2. With the date the chat turn passes (the current one), \<open>analyzeIntent\<close> returns and
  does not raise; and when the call has failed after its retries, when the response is not
  JSON, or when the intent of the response is not a value of the enumeration, what it
  returns has intent \<open>chat\<close>, no entities and confidence 1.
\<close>

theorem C2_analyzer_degrades_to_chat:
  "(\<exists>r. analyzeIntent rt msg ValidDate gateway = Inr r) \<and>
   (generateContentWithRetry call = Inl e \<longrightarrow>
      analyzeIntent rt msg ValidDate (generateContentWithRetry call) = Inr (chatOnly msg)) \<and>
   (JSON_parse rt (cleanResponse rt response) = None \<longrightarrow>
      analyzeIntent rt msg ValidDate (Inr response) = Inr (chatOnly response)) \<and>
   (JSON_parse rt (cleanResponse rt response) = Some parsed \<and>
    get_prop parsed ''intent'' = Inr iv \<and> recognizedIntent iv = None \<longrightarrow>
      analyzeIntent rt msg ValidDate (Inr response) = Inr (chatOnly response)) \<and>
   intent (chatOnly raw) = CHAT_ONLY \<and> entities (chatOnly raw) = JObject [] \<and>
   confidence (chatOnly raw) = JNumber (Fin 1)"
proof -
  have a: "\<exists>r. analyzeIntent rt msg ValidDate gateway = Inr r"
    by (simp add: analyzeIntent_def)
  have b: "analyzeIntent rt msg ValidDate (generateContentWithRetry call) = Inr (chatOnly msg)"
    if "generateContentWithRetry call = Inl e"
    using that by (simp add: analyzeIntent_def)
  have c: "analyzeIntent rt msg ValidDate (Inr response) = Inr (chatOnly response)"
    if "JSON_parse rt (cleanResponse rt response) = None"
    using that by (simp add: analyzeIntent_def parseIntentResponse_malformed)
  have d: "analyzeIntent rt msg ValidDate (Inr response) = Inr (chatOnly response)"
    if "JSON_parse rt (cleanResponse rt response) = Some parsed"
      "get_prop parsed ''intent'' = Inr iv" "recognizedIntent iv = None"
    using that by (simp add: analyzeIntent_def parseIntentResponse_unrecognized)
  have e: "intent (chatOnly raw) = CHAT_ONLY \<and> entities (chatOnly raw) = JObject [] \<and>
           confidence (chatOnly raw) = JNumber (Fin 1)"
    by (simp add: chatOnly_def)
  from a b c d e show ?thesis by blast
qed

theorem C2_analyzer_degrades_to_chat_witness:
  "generateContentWithRetry alwaysOverloaded = (Inl (StatusError 503) :: exn + string) \<and>
   analyzeIntent deleteGoalRuntime ''hello'' ValidDate (generateContentWithRetry alwaysOverloaded)
     = Inr (chatOnly ''hello'') \<and>
   JSON_parse deleteGoalRuntime (cleanResponse deleteGoalRuntime ''Sure, I can help'') = None \<and>
   analyzeIntent deleteGoalRuntime ''hello'' ValidDate (Inr ''Sure, I can help'')
     = Inr (chatOnly ''Sure, I can help'') \<and>
   recognizedIntent (JString ''delete_goal'') = None \<and>
   analyzeIntent deleteGoalRuntime ''hello'' ValidDate (Inr deleteGoal) = Inr (chatOnly deleteGoal)"
proof -
  have g: "generateContentWithRetry alwaysOverloaded = (Inl (StatusError 503) :: exn + string)"
    by (simp add: generateContentWithRetry_def alwaysOverloaded_def retryable_def numeral_3_eq_3)
  have m: "JSON_parse deleteGoalRuntime (cleanResponse deleteGoalRuntime ''Sure, I can help'') = None"
    by (simp add: deleteGoalRuntime_def exampleRuntime_def deleteGoal_def cleanResponse_def asciiTrim_def
        is_space_def startsWith_def)
  have p: "JSON_parse deleteGoalRuntime (cleanResponse deleteGoalRuntime deleteGoal)
             = Some (JObject [(''intent'', JString ''delete_goal''), (''confidence'', JNumber (Fin (9/10)))])"
    by (simp add: deleteGoalRuntime_def exampleRuntime_def deleteGoal_def cleanResponse_def asciiTrim_def
        is_space_def startsWith_def)
  have u: "recognizedIntent (JString ''delete_goal'') = None"
    by (simp add: Intent_values_def)
  have i: "get_prop (JObject [(''intent'', JString ''delete_goal''), (''confidence'', JNumber (Fin (9/10)))]) ''intent''
             = Inr (JString ''delete_goal'')"
    by simp
  show ?thesis
    using g m p u i
      C2_analyzer_degrades_to_chat [of deleteGoalRuntime "''hello''" "Inr deleteGoal" alwaysOverloaded
        "StatusError 503" "''Sure, I can help''" "JNull" "JNull" "''x''"]
      C2_analyzer_degrades_to_chat [of deleteGoalRuntime "''hello''" "Inr deleteGoal" alwaysOverloaded
        "StatusError 503" deleteGoal
        "JObject [(''intent'', JString ''delete_goal''), (''confidence'', JNumber (Fin (9/10)))]"
        "JString ''delete_goal''" "''x''"]
    by simp
qed

subsection \<open>The dispatcher\<close>

lemma invoke_calls:
  "snd (invoke run call) = (case call of Inl e \<Rightarrow> [] | Inr c \<Rightarrow> [c])"
  by (simp add: invoke_def split: sum.splits)

lemma readEntities_Inr:
  "e \<noteq> JNull \<Longrightarrow> e \<noteq> JUndefined \<Longrightarrow> \<exists>c. readEntities e k1 k2 k3 k4 mk = Inr c"
  by (cases e) (simp_all add: readEntities_def bindE_def)

lemma readEntities_Inl:
  "e = JNull \<or> e = JUndefined \<Longrightarrow> \<exists>x. readEntities e k1 k2 k3 k4 mk = Inl x"
  by (cases e) (auto simp: readEntities_def bindE_def)

lemma executeAction_invokes:
  "snd (executeAction run r t) \<noteq> [] \<longleftrightarrow>
     actionable (intent r) \<and> entities r \<noteq> JNull \<and> entities r \<noteq> JUndefined"
proof (cases "entities r = JNull \<or> entities r = JUndefined")
  case True
  then show ?thesis
    using readEntities_Inl [OF True]
    by (cases "intent r") (auto simp: executeAction_def invoke_calls actionable_def readEntities_def bindE_def)
next
  case False
  then have "\<And>k1 k2 k3 k4 mk. \<exists>c. readEntities (entities r) k1 k2 k3 k4 mk = Inr c"
    using readEntities_Inr by blast
  then have "\<And>k1 k2 k3 k4 mk. snd (invoke run (readEntities (entities r) k1 k2 k3 k4 mk)) \<noteq> []"
    by (metis invoke_calls sum.case(2) list.distinct(1))
  with False show ?thesis
    by (cases "intent r") (simp_all add: executeAction_def actionable_def)
qed

text \<open>The entities of an analyzed message can always be read.\<close>

lemma js_or_object: "js_or v (JObject []) \<noteq> JNull \<and> js_or v (JObject []) \<noteq> JUndefined"
  by (cases v) (simp_all add: js_or_def)

lemma intentOfParsed_entities:
  "intentOfParsed parsed response = Inr r \<Longrightarrow> entities r \<noteq> JNull \<and> entities r \<noteq> JUndefined"
  using js_or_object
  by (auto simp: intentOfParsed_def bindE_def chatOnly_def split: sum.splits option.splits)

lemma analyzed_entities_readable:
  assumes "analyzeIntent rt m d gateway = Inr r"
  shows "entities r \<noteq> JNull \<and> entities r \<noteq> JUndefined"
proof -
  have c: "entities (chatOnly raw) \<noteq> JNull \<and> entities (chatOnly raw) \<noteq> JUndefined" for raw
    by (simp add: chatOnly_def)
  have p: "entities (parseIntentResponse rt response) \<noteq> JNull \<and>
           entities (parseIntentResponse rt response) \<noteq> JUndefined" for response
    using c intentOfParsed_entities
    by (auto simp: parseIntentResponse_def split: option.splits sum.splits)
  from assms show ?thesis
    using c p by (auto simp: analyzeIntent_def split: date.splits sum.splits)
qed

lemma executeAction_default:
  "\<not> actionable (intent r) \<Longrightarrow> executeAction run r t = (JNull, [])"
  by (cases "intent r") (simp_all add: executeAction_def actionable_def)

lemma chatRoute_gate:
  assumes "hasToken jwtToken" and "intent r \<noteq> CHAT_ONLY" and "ToNumber rt (confidence r) = Inr c"
  shows "\<exists>out. chatRoute rt run jwtToken r = Inr out \<and> analysis out = Some r \<and>
           (actionResult out \<noteq> None \<longleftrightarrow> num_gt c (Fin (6/10))) \<and>
           (invoked out \<noteq> [] \<longleftrightarrow>
              num_gt c (Fin (6/10)) \<and> actionable (intent r) \<and> entities r \<noteq> JNull \<and> entities r \<noteq> JUndefined)"
proof (cases "num_gt c (Fin (6/10))")
  case True
  obtain result calls where e: "executeAction run r (the jwtToken) = (result, calls)"
    by (cases "executeAction run r (the jwtToken)") auto
  have i: "calls \<noteq> [] \<longleftrightarrow> actionable (intent r) \<and> entities r \<noteq> JNull \<and> entities r \<noteq> JUndefined"
    using executeAction_invokes [of run r "the jwtToken"] unfolding e by simp
  have "chatRoute rt run jwtToken r =
          Inr \<lparr>analysis = Some r, actionResult = Some result, invoked = calls\<rparr>"
    using assms True e by (simp add: chatRoute_def bindE_def)
  with i True show ?thesis by simp
next
  case False
  with assms have "chatRoute rt run jwtToken r =
          Inr \<lparr>analysis = Some r, actionResult = None, invoked = []\<rparr>"
    by (simp add: chatRoute_def bindE_def)
  with False show ?thesis by simp
qed

lemma chatRoute_chat:
  assumes "hasToken jwtToken" and "intent r = CHAT_ONLY"
  shows "chatRoute rt run jwtToken r = Inr \<lparr>analysis = Some r, actionResult = None, invoked = []\<rparr>"
  using assms by (simp add: chatRoute_def)

lemma chatRoute_low:
  assumes "hasToken jwtToken" and "ToNumber rt (confidence r) = Inr c" and "\<not> num_gt c (Fin (6/10))"
  shows "chatRoute rt run jwtToken r = Inr \<lparr>analysis = Some r, actionResult = None, invoked = []\<rparr>"
  using assms by (simp add: chatRoute_def bindE_def)


text \<open>
  C3 (as amended). With a token, \<open>executeAction\<close> is entered exactly when the intent is
  not \<open>chat\<close> and the confidence is greater than 0.6, and an executor is called exactly
  when, moreover, the intent is \<open>create_log\<close>, \<open>create_goal\<close> or \<open>create_reminder\<close> (and
  the entities can be read). For the intent \<open>chat\<close>, and for a confidence that is not
  greater than 0.6, nothing is executed and the turn has no action result.
\<close>

theorem C3_dispatch_gate:
  "hasToken jwtToken \<longrightarrow>
     (intent r = CHAT_ONLY \<longrightarrow>
        chatRoute rt run jwtToken r = Inr \<lparr>analysis = Some r, actionResult = None, invoked = []\<rparr>) \<and>
     (ToNumber rt (confidence r) = Inr c \<and> \<not> num_gt c (Fin (6/10)) \<longrightarrow>
        chatRoute rt run jwtToken r = Inr \<lparr>analysis = Some r, actionResult = None, invoked = []\<rparr>) \<and>
     (intent r \<noteq> CHAT_ONLY \<and> ToNumber rt (confidence r) = Inr c \<longrightarrow>
        (\<exists>out. chatRoute rt run jwtToken r = Inr out \<and>
           (actionResult out \<noteq> None \<longleftrightarrow> num_gt c (Fin (6/10))) \<and>
           (invoked out \<noteq> [] \<longleftrightarrow>
              num_gt c (Fin (6/10)) \<and> actionable (intent r) \<and>
              entities r \<noteq> JNull \<and> entities r \<noteq> JUndefined)))"
proof (cases "hasToken jwtToken")
  case True
  have a: "chatRoute rt run jwtToken r = Inr \<lparr>analysis = Some r, actionResult = None, invoked = []\<rparr>"
    if "intent r = CHAT_ONLY"
    using True that by (rule chatRoute_chat)
  have b: "chatRoute rt run jwtToken r = Inr \<lparr>analysis = Some r, actionResult = None, invoked = []\<rparr>"
    if "ToNumber rt (confidence r) = Inr c" "\<not> num_gt c (Fin (6/10))"
    using True that by (rule chatRoute_low)
  have c: "\<exists>out. chatRoute rt run jwtToken r = Inr out \<and>
           (actionResult out \<noteq> None \<longleftrightarrow> num_gt c (Fin (6/10))) \<and>
           (invoked out \<noteq> [] \<longleftrightarrow>
              num_gt c (Fin (6/10)) \<and> actionable (intent r) \<and>
              entities r \<noteq> JNull \<and> entities r \<noteq> JUndefined)"
    if "intent r \<noteq> CHAT_ONLY" "ToNumber rt (confidence r) = Inr c"
    using chatRoute_gate [OF True that] by blast
  from a b c show ?thesis by blast
next
  case False
  then show ?thesis by simp
qed

theorem C3_dispatch_gate_witness:
  "hasToken (Some ''jwt'') \<and> intent guitarLog \<noteq> CHAT_ONLY \<and>
   ToNumber plainRuntime (confidence guitarLog) = Inr (Fin (95/100)) \<and>
   (\<exists>out. chatRoute plainRuntime okExecutor (Some ''jwt'') guitarLog = Inr out \<and>
      actionResult out \<noteq> None \<and> invoked out \<noteq> [])"
proof -
  have h: "hasToken (Some ''jwt'')" "intent guitarLog \<noteq> CHAT_ONLY"
    "ToNumber plainRuntime (confidence guitarLog) = Inr (Fin (95/100))"
    "num_gt (Fin (95/100)) (Fin (6/10))" "actionable (intent guitarLog)"
    "entities guitarLog \<noteq> JNull" "entities guitarLog \<noteq> JUndefined"
    by (simp_all add: hasToken_def guitarLog_def num_gt_def actionable_def)
  show ?thesis
    using h C3_dispatch_gate [of "Some ''jwt''" guitarLog plainRuntime okExecutor "Fin (95/100)"]
    by blast
qed

text \<open>
  C3 as stated fails: the intent \<open>get_status\<close> with confidence 0.88 passes the gate, and
  no executor is called.
\<close>

theorem C3_status_passes_gate_counterexample:
  "hasToken (Some ''jwt'') \<and> intent statusQuestion \<noteq> CHAT_ONLY \<and>
   ToNumber plainRuntime (confidence statusQuestion) = Inr (Fin (88/100)) \<and>
   num_gt (Fin (88/100)) (Fin (6/10)) \<and>
   chatRoute plainRuntime okExecutor (Some ''jwt'') statusQuestion =
     Inr \<lparr>analysis = Some statusQuestion, actionResult = Some JNull, invoked = []\<rparr>"
  by (simp add: hasToken_def statusQuestion_def num_gt_def chatRoute_def bindE_def executeAction_def)

text \<open>
  C10. For the intents \<open>update_goal\<close>, \<open>get_status\<close> and \<open>get_summary\<close>,
  \<open>executeAction\<close> returns \<open>null\<close> and calls no executor; a turn that passes the gate
  (a token, a confidence greater than 0.6) goes on with \<open>null\<close> as its action result, and
  the system prompt gets no action block.
\<close>

theorem C10_no_executor_for_update_status_summary:
  "intent r \<in> {UPDATE_GOAL, GET_GOAL_STATUS, GET_TODAY_SUMMARY} \<longrightarrow>
     executeAction run r t = (JNull, []) \<and>
     (hasToken jwtToken \<and> ToNumber rt (confidence r) = Inr c \<and> num_gt c (Fin (6/10)) \<longrightarrow>
        chatRoute rt run jwtToken r = Inr \<lparr>analysis = Some r, actionResult = Some JNull, invoked = []\<rparr>) \<and>
     buildSystemPrompt prompt stringify (Some JNull) = prompt"
proof -
  have "executeAction run r t = (JNull, [])
      \<and> (hasToken jwtToken \<and> ToNumber rt (confidence r) = Inr c \<and> num_gt c (Fin (6/10)) \<longrightarrow>
        chatRoute rt run jwtToken r = Inr \<lparr>analysis = Some r, actionResult = Some JNull, invoked = []\<rparr>)"
    if i: "intent r \<in> {UPDATE_GOAL, GET_GOAL_STATUS, GET_TODAY_SUMMARY}"
  proof -
    from i have n: "\<not> actionable (intent r)" and ch: "intent r \<noteq> CHAT_ONLY"
      by (auto simp: actionable_def)
    have e: "executeAction run r u = (JNull, [])" for u
      using n by (rule executeAction_default)
    show ?thesis
      using e ch by (simp add: chatRoute_def bindE_def)
  qed
  moreover have "buildSystemPrompt prompt stringify (Some JNull) = prompt"
    by (simp add: buildSystemPrompt_def)
  ultimately show ?thesis by blast
qed

theorem C10_no_executor_for_update_status_summary_witness:
  "intent summaryQuestion \<in> {UPDATE_GOAL, GET_GOAL_STATUS, GET_TODAY_SUMMARY} \<and>
   hasToken (Some ''jwt'') \<and> ToNumber plainRuntime (confidence summaryQuestion) = Inr (Fin (93/100)) \<and>
   num_gt (Fin (93/100)) (Fin (6/10)) \<and>
   executeAction okExecutor summaryQuestion ''jwt'' = (JNull, []) \<and>
   chatRoute plainRuntime okExecutor (Some ''jwt'') summaryQuestion =
     Inr \<lparr>analysis = Some summaryQuestion, actionResult = Some JNull, invoked = []\<rparr>"
proof -
  have h: "intent summaryQuestion \<in> {UPDATE_GOAL, GET_GOAL_STATUS, GET_TODAY_SUMMARY}"
    "hasToken (Some ''jwt'')" "ToNumber plainRuntime (confidence summaryQuestion) = Inr (Fin (93/100))"
    "num_gt (Fin (93/100)) (Fin (6/10))"
    by (simp_all add: summaryQuestion_def hasToken_def num_gt_def)
  show ?thesis
    using h C10_no_executor_for_update_status_summary
      [of summaryQuestion okExecutor "''jwt''" "Some ''jwt''" plainRuntime "Fin (93/100)"]
    by blast
qed

subsection \<open>Fuzzy matching\<close>

lemma set_foldl_Set_add: "set (foldl Set_add acc xs) = set acc \<union> set xs"
  by (induction xs arbitrary: acc) (auto simp: Set_add_def)

lemma distinct_foldl_Set_add: "distinct acc \<Longrightarrow> distinct (foldl Set_add acc xs)"
  by (induction xs arbitrary: acc) (auto simp: Set_add_def)

lemma set_new_Set: "set (new_Set xs) = set xs"
  by (simp add: new_Set_def set_foldl_Set_add)

lemma distinct_new_Set: "distinct (new_Set xs)"
  by (simp add: new_Set_def distinct_foldl_Set_add)

lemma size_new_Set: "length (new_Set xs) = card (set xs)"
  using distinct_card [OF distinct_new_Set, of xs] by (simp add: set_new_Set)

lemma split_nonempty: "split sep s \<noteq> []"
  by (induction s) (auto split: list.splits)

lemma calculateSimilarity_card:
  "calculateSimilarity str1 str2 =
     real (card (set (split CHR '' '' str1) \<inter> set (split CHR '' '' str2))) /
     real (card (set (split CHR '' '' str1) \<union> set (split CHR '' '' str2)))"
proof -
  have "set (filter (\<lambda>x. x \<in> set (new_Set (split CHR '' '' str2))) (new_Set (split CHR '' '' str1)))
          = set (split CHR '' '' str1) \<inter> set (split CHR '' '' str2)"
    by (auto simp: set_new_Set)
  then show ?thesis
    by (simp add: calculateSimilarity_def Let_def size_new_Set set_new_Set)
qed

lemma union_nonempty:
  "card (set (split CHR '' '' str1) \<union> set (split CHR '' '' str2)) > 0"
  using split_nonempty [of "CHR '' ''" str1] by (simp add: card_gt_0_iff)

text \<open>
  C9. The similarity of the fuzzy matcher does not depend on the order of its two
  arguments.
\<close>

theorem C9_similarity_symmetric:
  "calculateSimilarity a b = calculateSimilarity b a"
  by (simp add: calculateSimilarity_card Int_commute Un_commute)

text \<open>The first element of a stable sort by decreasing similarity.\<close>

lemma hd_sort_first_max:
  fixes ms :: "('a \<times> real) list"
  assumes "ms = pre @ x # post"
    and "\<forall>p \<in> set pre. snd p < snd x"
    and "\<forall>q \<in> set post. snd q \<le> snd x"
  shows "hd (sort_key (\<lambda>m. - snd m) ms) = x"
proof -
  let ?f = "\<lambda>m :: 'a \<times> real. - snd m"
  let ?s = "sort_key ?f ms"
  have ne: "?s \<noteq> []"
    using assms(1) by (metis length_sort length_0_conv append_is_Nil_conv list.distinct(1))
  then obtain y ys where s: "?s = y # ys"
    by (cases ?s) auto
  have srt: "sorted (map ?f ?s)"
    by (rule sorted_sort_key)
  have "x \<in> set ?s"
    using assms(1) by simp
  then have "?f y \<le> ?f x"
    using srt s by auto
  moreover have "y \<in> set ms"
    using s by (metis list.set_intros(1) set_sort)
  then have "snd y \<le> snd x"
    using assms by auto
  ultimately have k: "?f y = ?f x"
    by simp
  have "filter (\<lambda>m. ?f m = ?f x) ?s = filter (\<lambda>m. ?f m = ?f x) ms"
    by (rule sort_key_stable)
  moreover have "filter (\<lambda>m. ?f m = ?f x) ?s = y # filter (\<lambda>m. ?f m = ?f x) ys"
    using s k by simp
  moreover have "filter (\<lambda>m. ?f m = ?f x) pre = []"
    using assms(2) by (auto simp: filter_empty_conv)
  then have "filter (\<lambda>m. ?f m = ?f x) ms = x # filter (\<lambda>m. ?f m = ?f x) post"
    using assms(1) by simp
  ultimately have "y = x"
    by simp
  then show ?thesis
    using s by simp
qed

lemma findGoalAmong_substring:
  assumes "goals = pre @ g # post"
    and "\<forall>h \<in> set pre. \<not> substringMatch rt (trim rt (toLowerCase rt keyword)) h"
    and "substringMatch rt (trim rt (toLowerCase rt keyword)) g"
  shows "findGoalAmong rt goals keyword = Some g"
proof -
  have "find (substringMatch rt (trim rt (toLowerCase rt keyword))) goals = Some g"
    using assms by (induction pre arbitrary: goals) auto
  then show ?thesis
    using assms(1) by (simp add: findGoalAmong_def)
qed

lemma findGoalAmong_similarity:
  assumes "\<forall>h \<in> set goals. \<not> substringMatch rt (trim rt (toLowerCase rt keyword)) h"
    and "goals = pre @ g # post"
    and "\<forall>h \<in> set pre. calculateSimilarity (trim rt (toLowerCase rt keyword)) (toLowerCase rt (title h))
           < calculateSimilarity (trim rt (toLowerCase rt keyword)) (toLowerCase rt (title g))"
    and "\<forall>h \<in> set post. calculateSimilarity (trim rt (toLowerCase rt keyword)) (toLowerCase rt (title h))
           \<le> calculateSimilarity (trim rt (toLowerCase rt keyword)) (toLowerCase rt (title g))"
  shows "findGoalAmong rt goals keyword =
           (if calculateSimilarity (trim rt (toLowerCase rt keyword)) (toLowerCase rt (title g)) > 1/2
            then Some g else None)"
proof -
  let ?k = "trim rt (toLowerCase rt keyword)"
  let ?m = "\<lambda>goal. (goal, calculateSimilarity ?k (toLowerCase rt (title goal)))"
  have f: "find (substringMatch rt ?k) goals = None"
    using assms(1) by (simp add: find_None_iff)
  have "map ?m goals = map ?m pre @ ?m g # map ?m post"
    using assms(2) by simp
  moreover have "\<forall>p \<in> set (map ?m pre). snd p < snd (?m g)"
    using assms(3) by auto
  moreover have "\<forall>q \<in> set (map ?m post). snd q \<le> snd (?m g)"
    using assms(4) by auto
  ultimately have "hd (sort_key (\<lambda>m. - snd m) (map ?m goals)) = ?m g"
    by (rule hd_sort_first_max)
  then show ?thesis
    using f assms(2) by (simp add: findGoalAmong_def Let_def)
qed

lemma plainRuntime_strings:
  "trim plainRuntime s = asciiTrim s" "toLowerCase plainRuntime s = asciiLowerCase s"
  by (simp_all add: plainRuntime_def exampleRuntime_def)

lemma lower_examples:
  "trim plainRuntime (toLowerCase plainRuntime ''AI project'') = ''ai project''"
  "toLowerCase plainRuntime ''Learn Guitar'' = ''learn guitar''"
  "toLowerCase plainRuntime ''AI Assistant Project'' = ''ai assistant project''"
  "toLowerCase plainRuntime ''Fitness Challenge'' = ''fitness challenge''"
  "trim plainRuntime (toLowerCase plainRuntime ''guitar'') = ''guitar''"
  "trim plainRuntime (toLowerCase plainRuntime ''piano'') = ''piano''"
  "trim plainRuntime (toLowerCase plainRuntime ''learn guitar now'') = ''learn guitar now''"
  "toLowerCase plainRuntime ''Learn  Guitar'' = ''learn  guitar''"
  by (simp_all add: plainRuntime_strings asciiTrim_def is_space_def asciiLowerCase_def toLowerChar_def)

lemma similarity_ai_project:
  "calculateSimilarity ''ai project'' ''learn guitar'' = 0"
  "calculateSimilarity ''ai project'' ''ai assistant project'' = 2/3"
  "calculateSimilarity ''ai project'' ''fitness challenge'' = 0"
  by (simp_all add: calculateSimilarity_def new_Set_def Set_add_def)

lemma no_substring_ai_project:
  "toLowerCase rt ''Learn Guitar'' = ''learn guitar'' \<Longrightarrow>
     \<not> substringMatch rt ''ai project'' (namedGoal n ''Learn Guitar'')"
  "toLowerCase rt ''AI Assistant Project'' = ''ai assistant project'' \<Longrightarrow>
     \<not> substringMatch rt ''ai project'' (namedGoal n ''AI Assistant Project'')"
  "toLowerCase rt ''Fitness Challenge'' = ''fitness challenge'' \<Longrightarrow>
     \<not> substringMatch rt ''ai project'' (namedGoal n ''Fitness Challenge'')"
  by (simp_all add: substringMatch_def namedGoal_def startsWith_def)

lemma includes_str_iff: "includes_str s sub \<longleftrightarrow> (\<exists>pre post. s = pre @ sub @ post)"
proof (induction s)
  case Nil
  then show ?case by auto
next
  case (Cons c cs)
  have a: "startsWith (c # cs) sub \<longleftrightarrow> (\<exists>post. c # cs = sub @ post)"
    unfolding startsWith_def by (metis append_eq_conv_conj append_take_drop_id)
  have b: "(\<exists>pre post. c # cs = pre @ sub @ post) \<longleftrightarrow>
           (\<exists>post. c # cs = sub @ post) \<or> (\<exists>pre post. cs = pre @ sub @ post)"
  proof
    assume "\<exists>pre post. c # cs = pre @ sub @ post"
    then obtain pre post where e: "c # cs = pre @ sub @ post" by blast
    show "(\<exists>post. c # cs = sub @ post) \<or> (\<exists>pre post. cs = pre @ sub @ post)"
    proof (cases pre)
      case Nil
      with e show ?thesis by auto
    next
      case (Cons p ps)
      with e have "cs = ps @ sub @ post" by simp
      then show ?thesis by blast
    qed
  next
    assume "(\<exists>post. c # cs = sub @ post) \<or> (\<exists>pre post. cs = pre @ sub @ post)"
    then show "\<exists>pre post. c # cs = pre @ sub @ post"
    proof
      assume "\<exists>post. c # cs = sub @ post"
      then obtain post where "c # cs = [] @ sub @ post" by auto
      then show ?thesis by blast
    next
      assume "\<exists>pre post. cs = pre @ sub @ post"
      then obtain pre post where "c # cs = (c # pre) @ sub @ post" by auto
      then show ?thesis by blast
    qed
  qed
  show ?case
    using Cons.IH a b by simp
qed

lemma findGoalByKeyword_fetched:
  "GET_goals a = Inr goals \<Longrightarrow>
   findGoalByKeyword rt a keyword = (Inr (findGoalAmong rt goals keyword), [GetGoals])"
  by (simp add: findGoalByKeyword_def getGoals_def rethrow_def bindT_def)

lemma title_namedGoal: "title (namedGoal n t) = t"
  by (simp add: namedGoal_def)

lemma example_ai_project:
  assumes k: "trim rt (toLowerCase rt ''AI project'') = ''ai project''"
    and l: "toLowerCase rt ''Learn Guitar'' = ''learn guitar''"
      "toLowerCase rt ''AI Assistant Project'' = ''ai assistant project''"
      "toLowerCase rt ''Fitness Challenge'' = ''fitness challenge''"
  shows "findGoalAmong rt threeGoals ''AI project'' = Some (namedGoal 2 ''AI Assistant Project'')"
proof -
  have g: "threeGoals = [namedGoal 1 ''Learn Guitar''] @ namedGoal 2 ''AI Assistant Project'' #
          [namedGoal 3 ''Fitness Challenge'']"
    by (simp add: threeGoals_def)
  have n: "\<forall>h \<in> set threeGoals. \<not> substringMatch rt (trim rt (toLowerCase rt ''AI project'')) h"
    using no_substring_ai_project [of rt] l by (simp add: threeGoals_def k)
  have p: "\<forall>h \<in> set [namedGoal 1 ''Learn Guitar''].
      calculateSimilarity (trim rt (toLowerCase rt ''AI project'')) (toLowerCase rt (title h))
      < calculateSimilarity (trim rt (toLowerCase rt ''AI project''))
          (toLowerCase rt (title (namedGoal 2 ''AI Assistant Project'')))"
    by (simp add: title_namedGoal k l similarity_ai_project)
  have q: "\<forall>h \<in> set [namedGoal 3 ''Fitness Challenge''].
      calculateSimilarity (trim rt (toLowerCase rt ''AI project'')) (toLowerCase rt (title h))
      \<le> calculateSimilarity (trim rt (toLowerCase rt ''AI project''))
          (toLowerCase rt (title (namedGoal 2 ''AI Assistant Project'')))"
    by (simp add: title_namedGoal k l similarity_ai_project)
  show ?thesis
    using findGoalAmong_similarity [OF n g p q]
    by (simp add: title_namedGoal k l similarity_ai_project)
qed

text \<open>
  C5 (as amended). \<open>findGoalByKeyword\<close> works in two phases on the goals fetched. First,
  without regard to case and with the keyword trimmed, the first goal in the order of the
  list whose title contains the keyword, or is contained in it, is returned. Only when no
  goal matches so, the goal of greatest similarity (the first of them in the list) is
  returned if its similarity is greater than 0.5, and null otherwise; the similarity is
  the Jaccard similarity of the two sets of tokens obtained by splitting at every single
  space character. With no goals the answer is null. For the keyword \<open>AI project\<close> and the
  goals titled Learn Guitar, AI Assistant Project and Fitness Challenge the answer is the
  second. Lower case and trimming are those of the runtime, whatever they do; the example
  needs only what they do on its four strings.
\<close>

theorem C5_two_phase_matching:
  "(goals = pre @ g # post \<and>
    (\<forall>h \<in> set pre. \<not> substringMatch rt (trim rt (toLowerCase rt keyword)) h) \<and>
    substringMatch rt (trim rt (toLowerCase rt keyword)) g \<longrightarrow>
      findGoalAmong rt goals keyword = Some g) \<and>
   ((\<forall>h \<in> set goals. \<not> substringMatch rt (trim rt (toLowerCase rt keyword)) h) \<and>
    goals = pre @ g # post \<and>
    (\<forall>h \<in> set pre. calculateSimilarity (trim rt (toLowerCase rt keyword)) (toLowerCase rt (title h))
        < calculateSimilarity (trim rt (toLowerCase rt keyword)) (toLowerCase rt (title g))) \<and>
    (\<forall>h \<in> set post. calculateSimilarity (trim rt (toLowerCase rt keyword)) (toLowerCase rt (title h))
        \<le> calculateSimilarity (trim rt (toLowerCase rt keyword)) (toLowerCase rt (title g))) \<longrightarrow>
      findGoalAmong rt goals keyword =
        (if calculateSimilarity (trim rt (toLowerCase rt keyword)) (toLowerCase rt (title g)) > 1/2
         then Some g else None)) \<and>
   findGoalAmong rt [] keyword = None \<and>
   (substringMatch rt k h \<longleftrightarrow>
      (\<exists>u v. toLowerCase rt (title h) = u @ k @ v) \<or> (\<exists>u v. k = u @ toLowerCase rt (title h) @ v)) \<and>
   calculateSimilarity a b =
     real (card (set (split CHR '' '' a) \<inter> set (split CHR '' '' b))) /
     real (card (set (split CHR '' '' a) \<union> set (split CHR '' '' b))) \<and>
   (GET_goals api = Inr goals \<longrightarrow>
      findGoalByKeyword rt api keyword = (Inr (findGoalAmong rt goals keyword), [GetGoals])) \<and>
   (trim rt (toLowerCase rt ''AI project'') = ''ai project'' \<and>
    toLowerCase rt ''Learn Guitar'' = ''learn guitar'' \<and>
    toLowerCase rt ''AI Assistant Project'' = ''ai assistant project'' \<and>
    toLowerCase rt ''Fitness Challenge'' = ''fitness challenge'' \<longrightarrow>
      findGoalAmong rt threeGoals ''AI project'' = Some (namedGoal 2 ''AI Assistant Project''))"
proof -
  have 1: "findGoalAmong rt goals keyword = Some g"
    if "goals = pre @ g # post"
      "\<forall>h \<in> set pre. \<not> substringMatch rt (trim rt (toLowerCase rt keyword)) h"
      "substringMatch rt (trim rt (toLowerCase rt keyword)) g"
    using that by (rule findGoalAmong_substring)
  have 2: "findGoalAmong rt goals keyword =
        (if calculateSimilarity (trim rt (toLowerCase rt keyword)) (toLowerCase rt (title g)) > 1/2
         then Some g else None)"
    if "\<forall>h \<in> set goals. \<not> substringMatch rt (trim rt (toLowerCase rt keyword)) h"
      "goals = pre @ g # post"
      "\<forall>h \<in> set pre. calculateSimilarity (trim rt (toLowerCase rt keyword)) (toLowerCase rt (title h))
        < calculateSimilarity (trim rt (toLowerCase rt keyword)) (toLowerCase rt (title g))"
      "\<forall>h \<in> set post. calculateSimilarity (trim rt (toLowerCase rt keyword)) (toLowerCase rt (title h))
        \<le> calculateSimilarity (trim rt (toLowerCase rt keyword)) (toLowerCase rt (title g))"
    using that by (rule findGoalAmong_similarity)
  have 3: "findGoalAmong rt [] keyword = None"
    by (simp add: findGoalAmong_def)
  have 4: "substringMatch rt k h \<longleftrightarrow>
      (\<exists>u v. toLowerCase rt (title h) = u @ k @ v) \<or> (\<exists>u v. k = u @ toLowerCase rt (title h) @ v)"
    by (simp add: substringMatch_def includes_str_iff)
  have 5: "findGoalByKeyword rt api keyword = (Inr (findGoalAmong rt goals keyword), [GetGoals])"
    if "GET_goals api = Inr goals"
    using that by (rule findGoalByKeyword_fetched)
  have 6: "findGoalAmong rt threeGoals ''AI project'' = Some (namedGoal 2 ''AI Assistant Project'')"
    if "trim rt (toLowerCase rt ''AI project'') = ''ai project''"
      "toLowerCase rt ''Learn Guitar'' = ''learn guitar''"
      "toLowerCase rt ''AI Assistant Project'' = ''ai assistant project''"
      "toLowerCase rt ''Fitness Challenge'' = ''fitness challenge''"
    using that by (rule example_ai_project)
  from 1 2 3 4 5 6 calculateSimilarity_card [of a b] show ?thesis
    by blast
qed

theorem C5_two_phase_matching_witness:
  "findGoalAmong plainRuntime threeGoals ''AI project'' = Some (namedGoal 2 ''AI Assistant Project'') \<and>
   findGoalAmong plainRuntime threeGoals ''guitar'' = Some (namedGoal 1 ''Learn Guitar'') \<and>
   findGoalByKeyword plainRuntime threeGoalsApi ''AI project'' =
     (Inr (Some (namedGoal 2 ''AI Assistant Project'')), [GetGoals])"
proof -
  have g: "threeGoals = [namedGoal 1 ''Learn Guitar''] @ namedGoal 2 ''AI Assistant Project'' #
          [namedGoal 3 ''Fitness Challenge'']"
    by (simp add: threeGoals_def)
  have n: "\<forall>h \<in> set threeGoals.
      \<not> substringMatch plainRuntime (trim plainRuntime (toLowerCase plainRuntime ''AI project'')) h"
    using no_substring_ai_project [of plainRuntime] by (simp add: threeGoals_def lower_examples)
  have p: "\<forall>h \<in> set [namedGoal 1 ''Learn Guitar''].
      calculateSimilarity (trim plainRuntime (toLowerCase plainRuntime ''AI project''))
          (toLowerCase plainRuntime (title h))
      < calculateSimilarity (trim plainRuntime (toLowerCase plainRuntime ''AI project''))
          (toLowerCase plainRuntime (title (namedGoal 2 ''AI Assistant Project'')))"
    by (simp add: title_namedGoal lower_examples similarity_ai_project)
  have q: "\<forall>h \<in> set [namedGoal 3 ''Fitness Challenge''].
      calculateSimilarity (trim plainRuntime (toLowerCase plainRuntime ''AI project''))
          (toLowerCase plainRuntime (title h))
      \<le> calculateSimilarity (trim plainRuntime (toLowerCase plainRuntime ''AI project''))
          (toLowerCase plainRuntime (title (namedGoal 2 ''AI Assistant Project'')))"
    by (simp add: title_namedGoal lower_examples similarity_ai_project)
  have s: "calculateSimilarity (trim plainRuntime (toLowerCase plainRuntime ''AI project''))
        (toLowerCase plainRuntime (title (namedGoal 2 ''AI Assistant Project''))) > 1/2"
    by (simp add: title_namedGoal lower_examples similarity_ai_project)
  have g': "threeGoals = [] @ namedGoal 1 ''Learn Guitar'' #
          [namedGoal 2 ''AI Assistant Project'', namedGoal 3 ''Fitness Challenge'']"
    by (simp add: threeGoals_def)
  have m: "substringMatch plainRuntime (trim plainRuntime (toLowerCase plainRuntime ''guitar''))
        (namedGoal 1 ''Learn Guitar'')"
    by (simp add: substringMatch_def title_namedGoal lower_examples startsWith_def)
  have a: "GET_goals threeGoalsApi = Inr threeGoals"
    by (simp add: threeGoalsApi_def)
  note t1 = C5_two_phase_matching [where rt = plainRuntime and goals = threeGoals
      and pre = "[namedGoal 1 ''Learn Guitar'']" and g = "namedGoal 2 ''AI Assistant Project''"
      and post = "[namedGoal 3 ''Fitness Challenge'']" and keyword = "''AI project''"
      and api = threeGoalsApi]
  note t2 = C5_two_phase_matching [where rt = plainRuntime and goals = threeGoals
      and pre = "[]" and g = "namedGoal 1 ''Learn Guitar''"
      and post = "[namedGoal 2 ''AI Assistant Project'', namedGoal 3 ''Fitness Challenge'']"
      and keyword = "''guitar''" and api = threeGoalsApi]
  have r1: "findGoalAmong plainRuntime threeGoals ''AI project'' = Some (namedGoal 2 ''AI Assistant Project'')"
    using t1 g n p q s by presburger
  have r1': "findGoalAmong plainRuntime threeGoals ''AI project'' = Some (namedGoal 2 ''AI Assistant Project'')"
    using t1 lower_examples(1-4) by blast
  have r2: "findGoalAmong plainRuntime threeGoals ''guitar'' = Some (namedGoal 1 ''Learn Guitar'')"
    using t2 g' m by simp
  have r3: "findGoalByKeyword plainRuntime threeGoalsApi ''AI project'' =
     (Inr (findGoalAmong plainRuntime threeGoals ''AI project''), [GetGoals])"
    using t1 a by blast
  from r1 r1' r2 r3 show ?thesis by simp
qed

text \<open>
  C5 as stated fails on a title with two spaces in a row: for the keyword
  \<open>learn guitar now\<close> and the single goal titled \<open>Learn  Guitar\<close> no substring matches, the
  similarity of the whitespace-tokenized words is 2/3, and the answer is null.
\<close>

theorem C5_single_space_tokens_counterexample:
  "\<not> substringMatch plainRuntime (trim plainRuntime (toLowerCase plainRuntime ''learn guitar now''))
       doubleSpaceGoal \<and>
   spec_similarity (trim plainRuntime (toLowerCase plainRuntime ''learn guitar now''))
       (toLowerCase plainRuntime (title doubleSpaceGoal)) = 2/3 \<and>
   calculateSimilarity (trim plainRuntime (toLowerCase plainRuntime ''learn guitar now''))
       (toLowerCase plainRuntime (title doubleSpaceGoal)) = 1/2 \<and>
   findGoalAmong plainRuntime [doubleSpaceGoal] ''learn guitar now'' = None"
proof -
  have l: "trim plainRuntime (toLowerCase plainRuntime ''learn guitar now'') = ''learn guitar now''"
    "toLowerCase plainRuntime (title doubleSpaceGoal) = ''learn  guitar''"
    by (simp_all add: doubleSpaceGoal_def title_namedGoal lower_examples)
  have n: "\<not> substringMatch plainRuntime ''learn guitar now'' doubleSpaceGoal"
    by (simp add: substringMatch_def l startsWith_def)
  have s: "spec_similarity ''learn guitar now'' ''learn  guitar'' = 2/3"
    by (simp add: spec_similarity_def spec_words_def is_space_def)
  have c: "calculateSimilarity ''learn guitar now'' ''learn  guitar'' = 1/2"
    by (simp add: calculateSimilarity_def new_Set_def Set_add_def)
  have "findGoalAmong plainRuntime [doubleSpaceGoal] ''learn guitar now'' = None"
    using n c by (simp add: findGoalAmong_def l)
  with n s c show ?thesis
    by (simp add: l)
qed

subsection \<open>CreateGoal\<close>

lemma createGoal_rejected:
  "num_le d (Fin 0) \<or> num_gt d (Fin 3650) \<Longrightarrow>
   createGoal a e t desc d start c j =
     (failed ''Goal duration must be between 1 and 3650 days (10 years).'', [])"
  by (simp add: createGoal_def)

lemma createGoal_sent:
  "\<not> num_le d (Fin 0) \<Longrightarrow> \<not> num_gt d (Fin 3650) \<Longrightarrow>
   \<exists>start' c'. snd (createGoal a e t desc d start c j) = [PostGoal t desc start' d c']"
  by (simp add: createGoal_def createGoal_request_def Let_def split: sum.splits)

text \<open>For a whole number of days the validation is the one of the message.\<close>

lemma createGoal_whole_days:
  "(k < 1 \<or> 3650 < k \<longrightarrow>
      createGoal a e t desc (Fin (of_int k)) start c j =
        (failed ''Goal duration must be between 1 and 3650 days (10 years).'', [])) \<and>
   (1 \<le> k \<and> k \<le> 3650 \<longrightarrow>
      (\<exists>start' c'. snd (createGoal a e t desc (Fin (of_int k)) start c j)
         = [PostGoal t desc start' (Fin (of_int k)) c']))"
proof -
  have r: "num_le (Fin (of_int k)) (Fin 0) \<or> num_gt (Fin (of_int k)) (Fin 3650)" if "k < 1 \<or> 3650 < k"
    using that by (auto simp: num_le_def num_gt_def)
  have s: "\<not> num_le (Fin (of_int k)) (Fin 0) \<and> \<not> num_gt (Fin (of_int k)) (Fin 3650)" if "1 \<le> k \<and> k \<le> 3650"
    using that by (auto simp: num_le_def num_gt_def)
  show ?thesis
    using r s createGoal_rejected [of "Fin (of_int k)" a e t desc start c j]
      createGoal_sent [of "Fin (of_int k)" a e t desc start c j]
    by blast
qed

text \<open>
  C4 fails for half a day: 0.5 lies outside the range from 1 to 3650, and the goal is sent
  to the service and reported as created.
\<close>

theorem C4_half_day_is_sent:
  "num_lt (Fin (1/2)) (Fin 1) \<and>
   snd (createGoal (acceptingApi []) exampleEnv ''Nap'' None (Fin (1/2)) None None ''jwt'')
     = [PostGoal ''Nap'' None ''2025-12-01'' (Fin (1/2)) ''#FF6B6B''] \<and>
   success (fst (createGoal (acceptingApi []) exampleEnv ''Nap'' None (Fin (1/2)) None None ''jwt''))"
  by (simp add: createGoal_def createGoal_request_def acceptingApi_def exampleEnv_def rethrow_def
      num_le_def num_gt_def getRandomColor_def GOAL_COLORS_def plain_def)

subsection \<open>CreateLog and CreateReminder\<close>

lemma getGoals_fetched: "GET_goals a = Inr goals \<Longrightarrow> getGoals a = (Inr goals, [GetGoals])"
  by (simp add: getGoals_def rethrow_def)

lemma resolve_found:
  assumes "hasKeyword goalKeyword" and "GET_goals a = Inr goals"
    and "findGoalAmong rt goals (the goalKeyword) = Some g"
  shows "resolveReminderGoal rt a goalKeyword = (Inr (Resolved g), [GetGoals])"
    and "resolveLogGoal rt a goalKeyword = (Inr (Resolved g), [GetGoals])"
  using assms
  by (simp_all add: resolveReminderGoal_def resolveLogGoal_def findGoalByKeyword_fetched bindT_def)

lemma resolveReminderGoal_first_active:
  assumes "GET_goals a = Inr goals"
    and "\<not> hasKeyword goalKeyword \<or> findGoalAmong rt goals (the goalKeyword) = None"
    and "filter isActive goals = first # others"
  shows "fst (resolveReminderGoal rt a goalKeyword) = Inr (Resolved first)"
proof (cases "hasKeyword goalKeyword")
  case True
  with assms show ?thesis
    by (simp add: resolveReminderGoal_def findGoalByKeyword_fetched getGoals_fetched bindT_def)
next
  case False
  with assms show ?thesis
    by (simp add: resolveReminderGoal_def getGoals_fetched bindT_def)
qed

lemma resolveLogGoal_asks:
  assumes "GET_goals a = Inr goals" and "\<not> hasKeyword goalKeyword"
    and "filter isActive goals = first # second # others"
  shows "resolveLogGoal rt a goalKeyword =
           (Inr (Answer (selection ''Which goal should I log this for?'' (first # second # others))),
            [GetGoals])"
  using assms by (simp add: resolveLogGoal_def getGoals_fetched bindT_def)

lemma resolveLogGoal_unmatched:
  assumes "GET_goals a = Inr goals" and "hasKeyword goalKeyword"
    and "findGoalAmong rt goals (the goalKeyword) = None"
    and "filter isActive goals = first # others"
  shows "\<exists>r. fst (resolveLogGoal rt a goalKeyword) = Inr (Answer r) \<and> \<not> success r \<and> needsGoalSelection r"
  using assms
  by (simp add: resolveLogGoal_def findGoalByKeyword_fetched getGoals_fetched bindT_def selection_def
      failed_def plain_def)

lemma createReminder_no_active:
  assumes "GET_goals a = Inr goals"
    and "\<not> hasKeyword goalKeyword \<or> findGoalAmong rt goals (the goalKeyword) = None"
    and "filter isActive goals = []"
  shows "fst (createReminder rt a e t desc planned goalKeyword j) =
           failed ''You don't have any active goals. Create a goal first to add reminders to.''"
    and "set (snd (createReminder rt a e t desc planned goalKeyword j)) \<subseteq> {GetGoals}"
proof -
  have "resolveReminderGoal rt a goalKeyword =
          (Inr (Answer (failed ''You don't have any active goals. Create a goal first to add reminders to.'')),
           if hasKeyword goalKeyword then [GetGoals, GetGoals] else [GetGoals])"
    using assms
    by (cases "hasKeyword goalKeyword")
       (simp_all add: resolveReminderGoal_def findGoalByKeyword_fetched getGoals_fetched bindT_def)
  then show "fst (createReminder rt a e t desc planned goalKeyword j) =
           failed ''You don't have any active goals. Create a goal first to add reminders to.''"
    and "set (snd (createReminder rt a e t desc planned goalKeyword j)) \<subseteq> {GetGoals}"
    by (simp_all add: createReminder_def)
qed

lemma example_guitar:
  "findGoalAmong plainRuntime threeGoals ''guitar'' = Some (namedGoal 1 ''Learn Guitar'')"
proof -
  have g: "threeGoals = [] @ namedGoal 1 ''Learn Guitar'' #
          [namedGoal 2 ''AI Assistant Project'', namedGoal 3 ''Fitness Challenge'']"
    by (simp add: threeGoals_def)
  have m: "substringMatch plainRuntime (trim plainRuntime (toLowerCase plainRuntime ''guitar''))
        (namedGoal 1 ''Learn Guitar'')"
    by (simp add: substringMatch_def title_namedGoal lower_examples startsWith_def)
  show ?thesis
    by (rule findGoalAmong_substring [OF g _ m]) simp
qed

lemma example_piano:
  "findGoalAmong plainRuntime fitnessOnly ''piano'' = None"
proof -
  have l: "trim plainRuntime (toLowerCase plainRuntime ''piano'') = ''piano''"
    "toLowerCase plainRuntime (title (namedGoal 3 ''Fitness Challenge'')) = ''fitness challenge''"
    by (simp_all add: title_namedGoal lower_examples)
  have n: "\<not> substringMatch plainRuntime ''piano'' (namedGoal 3 ''Fitness Challenge'')"
    using l(2) by (simp add: substringMatch_def startsWith_def)
  have c: "calculateSimilarity ''piano'' ''fitness challenge'' = 0"
    by (simp add: calculateSimilarity_def new_Set_def Set_add_def)
  show ?thesis
    using n c l by (simp add: findGoalAmong_def fitnessOnly_def)
qed

lemma createDailyLog_accepting:
  "createDailyLog (acceptingApi goals) body = (Inr (JObject [(''id'', JNumber (Fin 1))]), [PostDailyLog body])"
  by (simp add: createDailyLog_def acceptingApi_def rethrow_def)

lemma active_examples:
  "filter isActive threeGoals = namedGoal 1 ''Learn Guitar'' #
     namedGoal 2 ''AI Assistant Project'' # [namedGoal 3 ''Fitness Challenge'']"
  "filter isActive fitnessOnly = namedGoal 3 ''Fitness Challenge'' # []"
  by (simp_all add: threeGoals_def fitnessOnly_def namedGoal_def)

text \<open>
  C7 (as amended). When a keyword is supplied and matches a goal, \<open>createReminder\<close> and
  \<open>createLog\<close> resolve the same goal. When no keyword is supplied, or the keyword matches no
  goal, \<open>createReminder\<close> takes the first active goal whenever there is one, where
  \<open>createLog\<close> asks the user (for an unmatched keyword, and for more than one active goal
  with no keyword). With no active goal \<open>createReminder\<close> returns a failure that asks to
  create a goal first, raises nothing and creates nothing.
\<close>

theorem C7_reminder_goal_resolution:
  "GET_goals a = Inr goals \<longrightarrow>
     (hasKeyword goalKeyword \<and> findGoalAmong rt goals (the goalKeyword) = Some g \<longrightarrow>
        resolveReminderGoal rt a goalKeyword = (Inr (Resolved g), [GetGoals]) \<and>
        resolveLogGoal rt a goalKeyword = (Inr (Resolved g), [GetGoals])) \<and>
     ((\<not> hasKeyword goalKeyword \<or> findGoalAmong rt goals (the goalKeyword) = None) \<and>
      filter isActive goals = first # others \<longrightarrow>
        fst (resolveReminderGoal rt a goalKeyword) = Inr (Resolved first)) \<and>
     (\<not> hasKeyword goalKeyword \<and> filter isActive goals = first # second # others \<longrightarrow>
        resolveLogGoal rt a goalKeyword =
          (Inr (Answer (selection ''Which goal should I log this for?'' (first # second # others))),
           [GetGoals])) \<and>
     (hasKeyword goalKeyword \<and> findGoalAmong rt goals (the goalKeyword) = None \<and>
      filter isActive goals = first # others \<longrightarrow>
        (\<exists>r. fst (resolveLogGoal rt a goalKeyword) = Inr (Answer r) \<and> \<not> success r \<and> needsGoalSelection r)) \<and>
     ((\<not> hasKeyword goalKeyword \<or> findGoalAmong rt goals (the goalKeyword) = None) \<and>
      filter isActive goals = [] \<longrightarrow>
        fst (createReminder rt a e t desc planned goalKeyword j) =
          failed ''You don't have any active goals. Create a goal first to add reminders to.'' \<and>
        set (snd (createReminder rt a e t desc planned goalKeyword j)) \<subseteq> {GetGoals})"
proof (cases "GET_goals a = Inr goals")
  case True
  note r1 = resolve_found [OF _ True]
  note r2 = resolveReminderGoal_first_active [OF True]
  note r3 = resolveLogGoal_asks [OF True]
  note r4 = resolveLogGoal_unmatched [OF True]
  note r5 = createReminder_no_active [OF True]
  have 1: "resolveReminderGoal rt a goalKeyword = (Inr (Resolved g), [GetGoals]) \<and>
        resolveLogGoal rt a goalKeyword = (Inr (Resolved g), [GetGoals])"
    if "hasKeyword goalKeyword \<and> findGoalAmong rt goals (the goalKeyword) = Some g"
    using that r1 by blast
  have 2: "fst (resolveReminderGoal rt a goalKeyword) = Inr (Resolved first)"
    if "(\<not> hasKeyword goalKeyword \<or> findGoalAmong rt goals (the goalKeyword) = None) \<and>
      filter isActive goals = first # others"
    using that r2 by blast
  have 3: "resolveLogGoal rt a goalKeyword =
          (Inr (Answer (selection ''Which goal should I log this for?'' (first # second # others))),
           [GetGoals])"
    if "\<not> hasKeyword goalKeyword \<and> filter isActive goals = first # second # others"
    using that r3 by blast
  have 4: "\<exists>r. fst (resolveLogGoal rt a goalKeyword) = Inr (Answer r) \<and> \<not> success r \<and> needsGoalSelection r"
    if "hasKeyword goalKeyword \<and> findGoalAmong rt goals (the goalKeyword) = None \<and>
      filter isActive goals = first # others"
    using that r4 by blast
  have 5: "fst (createReminder rt a e t desc planned goalKeyword j) =
          failed ''You don't have any active goals. Create a goal first to add reminders to.'' \<and>
        set (snd (createReminder rt a e t desc planned goalKeyword j)) \<subseteq> {GetGoals}"
    if "(\<not> hasKeyword goalKeyword \<or> findGoalAmong rt goals (the goalKeyword) = None) \<and>
      filter isActive goals = []"
    using that r5 by blast
  from 1 2 3 4 5 show ?thesis by blast
next
  case False
  then show ?thesis by simp
qed

theorem C7_reminder_goal_resolution_witness:
  "resolveReminderGoal plainRuntime (acceptingApi threeGoals) (Some ''guitar'')
     = (Inr (Resolved (namedGoal 1 ''Learn Guitar'')), [GetGoals]) \<and>
   resolveLogGoal plainRuntime (acceptingApi threeGoals) (Some ''guitar'')
     = (Inr (Resolved (namedGoal 1 ''Learn Guitar'')), [GetGoals]) \<and>
   fst (resolveReminderGoal plainRuntime (acceptingApi threeGoals) None) = Inr (Resolved (namedGoal 1 ''Learn Guitar'')) \<and>
   resolveLogGoal plainRuntime (acceptingApi threeGoals) None =
     (Inr (Answer (selection ''Which goal should I log this for?'' threeGoals)), [GetGoals]) \<and>
   fst (createReminder plainRuntime (acceptingApi []) exampleEnv ''Call the dentist'' None ''2025-12-05T14:00:00Z'' None ''jwt'')
     = failed ''You don't have any active goals. Create a goal first to add reminders to.''"
proof -
  have a: "GET_goals (acceptingApi threeGoals) = Inr threeGoals" "GET_goals (acceptingApi []) = Inr []"
    by (simp_all add: acceptingApi_def)
  have k: "hasKeyword (Some ''guitar'')" "\<not> hasKeyword None" "the (Some ''guitar'') = ''guitar''"
    by (simp_all add: hasKeyword_def)
  have t: "threeGoals = namedGoal 1 ''Learn Guitar'' #
     namedGoal 2 ''AI Assistant Project'' # [namedGoal 3 ''Fitness Challenge'']"
    by (simp add: threeGoals_def)
  have f: "filter isActive [] = ([] :: Goal list)"
    by simp
  note w1 = C7_reminder_goal_resolution [where a = "acceptingApi threeGoals" and goals = threeGoals
      and goalKeyword = "Some ''guitar''" and g = "namedGoal 1 ''Learn Guitar''"]
  note w2 = C7_reminder_goal_resolution [where a = "acceptingApi threeGoals" and goals = threeGoals
      and goalKeyword = None and first = "namedGoal 1 ''Learn Guitar''"
      and others = "[namedGoal 2 ''AI Assistant Project'', namedGoal 3 ''Fitness Challenge'']"]
  note w3 = C7_reminder_goal_resolution [where a = "acceptingApi threeGoals" and goals = threeGoals
      and goalKeyword = None and first = "namedGoal 1 ''Learn Guitar''"
      and second = "namedGoal 2 ''AI Assistant Project''"
      and others = "[namedGoal 3 ''Fitness Challenge'']"]
  note w4 = C7_reminder_goal_resolution [where a = "acceptingApi []" and goals = "[]"
      and goalKeyword = None and e = exampleEnv and t = "''Call the dentist''" and desc = None
      and planned = "''2025-12-05T14:00:00Z''" and j = "''jwt''"]
  have 1: "resolveReminderGoal plainRuntime (acceptingApi threeGoals) (Some ''guitar'')
     = (Inr (Resolved (namedGoal 1 ''Learn Guitar'')), [GetGoals]) \<and>
   resolveLogGoal plainRuntime (acceptingApi threeGoals) (Some ''guitar'')
     = (Inr (Resolved (namedGoal 1 ''Learn Guitar'')), [GetGoals])"
    using w1 a(1) k example_guitar by simp
  have 2: "fst (resolveReminderGoal plainRuntime (acceptingApi threeGoals) None) = Inr (Resolved (namedGoal 1 ''Learn Guitar''))"
    using w2 a(1) k(2) active_examples(1) by blast
  have 3: "resolveLogGoal plainRuntime (acceptingApi threeGoals) None =
     (Inr (Answer (selection ''Which goal should I log this for?'' threeGoals)), [GetGoals])"
    using w3 a(1) k(2) active_examples(1) unfolding t by blast
  have 4: "fst (createReminder plainRuntime (acceptingApi []) exampleEnv ''Call the dentist'' None ''2025-12-05T14:00:00Z'' None ''jwt'')
     = failed ''You don't have any active goals. Create a goal first to add reminders to.''"
    using w4 a(2) k(2) f by blast
  from 1 2 3 4 show ?thesis by blast
qed

text \<open>
  C7 as stated fails for a keyword that matches no goal: with the one active goal Fitness
  Challenge and the keyword \<open>piano\<close>, \<open>createLog\<close> asks which goal was meant and creates
  nothing, and \<open>createReminder\<close> takes Fitness Challenge.
\<close>

theorem C7_unmatched_keyword_counterexample:
  "hasKeyword (Some ''piano'') \<and>
   fst (resolveLogGoal plainRuntime (acceptingApi fitnessOnly) (Some ''piano'')) =
     Inr (Answer (selection ''I couldn't find a goal matching \"piano\". Which goal did you mean?'' fitnessOnly)) \<and>
   fst (resolveReminderGoal plainRuntime (acceptingApi fitnessOnly) (Some ''piano'')) =
     Inr (Resolved (namedGoal 3 ''Fitness Challenge'')) \<and>
   \<not> success (fst (createLog plainRuntime (acceptingApi fitnessOnly) exampleEnv (Some ''piano'') None None None None ''jwt'')) \<and>
   success (fst (createReminder plainRuntime (acceptingApi fitnessOnly) exampleEnv ''Practice'' None ''2025-12-05T14:00:00Z''
     (Some ''piano'') ''jwt''))"
proof -
  have a: "GET_goals (acceptingApi fitnessOnly) = Inr fitnessOnly"
    by (simp add: acceptingApi_def)
  have k: "hasKeyword (Some ''piano'')"
    by (simp add: hasKeyword_def)
  have af: "filter isActive fitnessOnly = fitnessOnly" "fitnessOnly \<noteq> []"
    by (simp_all add: fitnessOnly_def namedGoal_def)
  have l: "resolveLogGoal plainRuntime (acceptingApi fitnessOnly) (Some ''piano'') =
     (Inr (Answer (selection ''I couldn't find a goal matching \"piano\". Which goal did you mean?'' fitnessOnly)),
      [GetGoals, GetGoals])"
    using k example_piano af
    by (simp add: resolveLogGoal_def findGoalByKeyword_fetched [OF a] getGoals_fetched [OF a] bindT_def)
  have r: "resolveReminderGoal plainRuntime (acceptingApi fitnessOnly) (Some ''piano'') =
     (Inr (Resolved (namedGoal 3 ''Fitness Challenge'')), [GetGoals, GetGoals])"
    using k example_piano active_examples(2)
    by (simp add: resolveReminderGoal_def findGoalByKeyword_fetched [OF a] getGoals_fetched [OF a] bindT_def)
  have cl: "\<not> success (fst (createLog plainRuntime (acceptingApi fitnessOnly) exampleEnv (Some ''piano'') None None None None ''jwt''))"
    by (simp add: createLog_def l selection_def failed_def plain_def)
  have cr: "success (fst (createReminder plainRuntime (acceptingApi fitnessOnly) exampleEnv ''Practice'' None ''2025-12-05T14:00:00Z''
     (Some ''piano'') ''jwt''))"
    by (simp add: createReminder_def r createDailyLog_accepting plain_def)
  from k l r cl cr show ?thesis by simp
qed

subsection \<open>The scheduler\<close>

lemma currentTime_examples:
  "currentTime 23 30 = ''23:30''" "currentTime 9 5 = ''09:05''"
  by (simp_all add: currentTime_def padStart2_def digit_def)

lemma checkGmailForUser_skipped:
  "isWithinActiveHours rows hours minutes = Inr False \<Longrightarrow>
   checkGmailForUser rows hours minutes fetched insertable stored = ([], stored)"
  by (simp add: checkGmailForUser_def)

lemma checkGmailForUser_fetches:
  "isWithinActiveHours rows hours minutes = Inr True \<Longrightarrow>
   \<exists>effects. fst (checkGmailForUser rows hours minutes fetched insertable stored) = FetchEmails # effects"
  by (simp add: checkGmailForUser_def split: sum.splits prod.splits)

lemma isWithinActiveHours_no_row:
  "isWithinActiveHours (Inr []) hours minutes = Inr True"
  by (simp add: isWithinActiveHours_def bindE_def)

lemma of_char_digit: "d < 10 \<Longrightarrow> (of_char (digit d) :: nat) = 48 + d"
proof -
  assume "d < 10"
  then have "d = 0 \<or> d = 1 \<or> d = 2 \<or> d = 3 \<or> d = 4 \<or> d = 5 \<or> d = 6 \<or> d = 7 \<or> d = 8 \<or> d = 9"
    by arith
  then show ?thesis
    by (elim disjE) (simp_all add: digit_def)
qed

lemma digit_eq_iff:
  assumes "d < 10" and "e < 10"
  shows "digit d = digit e \<longleftrightarrow> d = e"
proof
  assume "digit d = digit e"
  then have "(of_char (digit d) :: nat) = of_char (digit e)"
    by (rule arg_cong)
  then have "48 + d = 48 + e"
    by (simp only: of_char_digit [OF assms(1)] of_char_digit [OF assms(2)])
  then show "d = e"
    by simp
next
  assume "d = e"
  then show "digit d = digit e"
    by simp
qed

lemma padStart2_digits: "n < 100 \<Longrightarrow> padStart2 n = [digit (n div 10), digit (n mod 10)]"
  by (simp add: padStart2_def digit_def)

lemma two_digits_less:
  fixes a0 a1 b0 b1 :: nat
  assumes "a0 < 10" and "b0 < 10"
  shows "a1 < b1 \<or> (a1 = b1 \<and> (a0 < b0 \<or> (a0 = b0 \<and> P))) \<longleftrightarrow>
         10 * a1 + a0 < 10 * b1 + b0 \<or> (10 * a1 + a0 = 10 * b1 + b0 \<and> P)"
  using assms by (cases P) auto

lemma str_lt_padStart2:
  assumes "a < 100" and "b < 100"
  shows "str_lt (padStart2 a @ xs) (padStart2 b @ ys) \<longleftrightarrow> a < b \<or> (a = b \<and> str_lt xs ys)"
proof -
  define a1 a0 b1 b0 where "a1 = a div 10" and "a0 = a mod 10" and "b1 = b div 10" and "b0 = b mod 10"
  have d: "a1 < 10" "b1 < 10" "a0 < 10" "b0 < 10"
    using assms by (auto simp: a1_def a0_def b1_def b0_def)
  have ab: "a = 10 * a1 + a0" "b = 10 * b1 + b0"
    by (simp_all add: a1_def a0_def b1_def b0_def)
  have p: "padStart2 a = [digit a1, digit a0]" "padStart2 b = [digit b1, digit b0]"
    using assms by (simp_all add: padStart2_digits a1_def a0_def b1_def b0_def)
  have "str_lt (padStart2 a @ xs) (padStart2 b @ ys) \<longleftrightarrow>
          (of_char (digit a1) :: nat) < of_char (digit b1) \<or>
          (digit a1 = digit b1 \<and>
            ((of_char (digit a0) :: nat) < of_char (digit b0) \<or> (digit a0 = digit b0 \<and> str_lt xs ys)))"
    unfolding p by simp
  also have "\<dots> \<longleftrightarrow> a1 < b1 \<or> (a1 = b1 \<and> (a0 < b0 \<or> (a0 = b0 \<and> str_lt xs ys)))"
    by (simp only: of_char_digit [OF d(1)] of_char_digit [OF d(2)] of_char_digit [OF d(3)]
          of_char_digit [OF d(4)] digit_eq_iff [OF d(1) d(2)] digit_eq_iff [OF d(3) d(4)]
          nat_add_left_cancel_less)
  also have "\<dots> \<longleftrightarrow> a < b \<or> (a = b \<and> str_lt xs ys)"
    unfolding ab using d(3) d(4) by (rule two_digits_less)
  finally show ?thesis .
qed

lemma str_lt_currentTime:
  assumes "h < 100" "m < 100" "h' < 100" "m' < 100"
  shows "str_lt (currentTime h m @ xs) (currentTime h' m' @ ys) \<longleftrightarrow>
           h < h' \<or> (h = h' \<and> (m < m' \<or> (m = m' \<and> str_lt xs ys)))"
proof -
  have "str_lt (currentTime h m @ xs) (currentTime h' m' @ ys) \<longleftrightarrow>
          str_lt (padStart2 h @ (CHR '':'' # padStart2 m @ xs)) (padStart2 h' @ (CHR '':'' # padStart2 m' @ ys))"
    by (simp add: currentTime_def)
  also have "\<dots> \<longleftrightarrow> h < h' \<or> (h = h' \<and> str_lt (padStart2 m @ xs) (padStart2 m' @ ys))"
    using assms by (simp add: str_lt_padStart2)
  also have "\<dots> \<longleftrightarrow> h < h' \<or> (h = h' \<and> (m < m' \<or> (m = m' \<and> str_lt xs ys)))"
    using assms by (simp add: str_lt_padStart2)
  finally show ?thesis .
qed

lemma str_lt_Nil2: "\<not> str_lt xs []"
  by (cases xs) simp_all

text \<open>Not after the sleep time, whatever follows its minutes.\<close>

lemma str_le_sleep:
  assumes "h < 24" "m < 60" "sh < 24" "sm < 60"
  shows "str_le (currentTime h m) (currentTime sh sm @ ssec) \<longleftrightarrow> 60 * h + m \<le> 60 * sh + sm"
proof -
  have b: "sh < 100" "sm < 100" "h < 100" "m < 100"
    using assms by simp_all
  have "str_lt (currentTime sh sm @ ssec) (currentTime h m @ []) \<longleftrightarrow>
          sh < h \<or> (sh = h \<and> (sm < m \<or> (sm = m \<and> str_lt ssec [])))"
    using b by (rule str_lt_currentTime)
  then have "str_le (currentTime h m) (currentTime sh sm @ ssec) \<longleftrightarrow> \<not> (sh < h \<or> (sh = h \<and> sm < m))"
    by (simp add: str_le_def str_lt_Nil2)
  also have "\<dots> \<longleftrightarrow> 60 * h + m \<le> 60 * sh + sm"
    using assms(2) assms(4) by arith
  finally show ?thesis .
qed

text \<open>After the wake time, and before it; the wake minute itself depends on what follows.\<close>

lemma str_ge_wake:
  assumes "h < 24" "m < 60" "wh < 24" "wm < 60"
  shows "60 * wh + wm < 60 * h + m \<Longrightarrow> str_ge (currentTime h m) (currentTime wh wm @ wsec)"
    and "60 * h + m < 60 * wh + wm \<Longrightarrow> \<not> str_ge (currentTime h m) (currentTime wh wm @ wsec)"
proof -
  have b: "h < 100" "m < 100" "wh < 100" "wm < 100"
    using assms by simp_all
  have "str_lt (currentTime h m @ []) (currentTime wh wm @ wsec) \<longleftrightarrow>
          h < wh \<or> (h = wh \<and> (m < wm \<or> (m = wm \<and> str_lt [] wsec)))"
    using b by (rule str_lt_currentTime)
  then have e: "str_ge (currentTime h m) (currentTime wh wm @ wsec) \<longleftrightarrow>
          \<not> (h < wh \<or> (h = wh \<and> (m < wm \<or> (m = wm \<and> str_lt [] wsec))))"
    by (simp add: str_ge_def)
  show "str_ge (currentTime h m) (currentTime wh wm @ wsec)" if "60 * wh + wm < 60 * h + m"
  proof -
    from that assms(2) assms(4) have "\<not> h < wh" "h = wh \<longrightarrow> \<not> m < wm \<and> m \<noteq> wm"
      by arith+
    then show ?thesis
      unfolding e by blast
  qed
  show "\<not> str_ge (currentTime h m) (currentTime wh wm @ wsec)" if "60 * h + m < 60 * wh + wm"
  proof -
    from that assms(2) assms(4) have "h < wh \<or> (h = wh \<and> m < wm)"
      by arith
    then show ?thesis
      unfolding e by blast
  qed
qed

lemma isWithinActiveHours_window:
  assumes "hours < 24" "minutes < 60" "wh < 24" "wm < 60" "sh < 24" "sm < 60"
    and w: "wake_time row = currentTime wh wm @ wsec" and s: "sleep_time row = currentTime sh sm @ ssec"
  shows "60 * hours + minutes < 60 * wh + wm \<or> 60 * sh + sm < 60 * hours + minutes \<Longrightarrow>
           isWithinActiveHours (Inr (row # others)) hours minutes = Inr False"
    and "60 * wh + wm < 60 * hours + minutes \<and> 60 * hours + minutes \<le> 60 * sh + sm \<Longrightarrow>
           isWithinActiveHours (Inr (row # others)) hours minutes = Inr True"
proof -
  note le = str_le_sleep [OF assms(1) assms(2) assms(5) assms(6), of ssec]
  note ge = str_ge_wake [OF assms(1) assms(2) assms(3) assms(4), of wsec]
  have r: "isWithinActiveHours (Inr (row # others)) hours minutes =
     Inr (str_ge (currentTime hours minutes) (currentTime wh wm @ wsec) \<and>
          str_le (currentTime hours minutes) (currentTime sh sm @ ssec))"
    by (simp add: isWithinActiveHours_def bindE_def w s)
  show "isWithinActiveHours (Inr (row # others)) hours minutes = Inr False"
    if "60 * hours + minutes < 60 * wh + wm \<or> 60 * sh + sm < 60 * hours + minutes"
  proof -
    from that have "\<not> str_ge (currentTime hours minutes) (currentTime wh wm @ wsec) \<or>
        \<not> str_le (currentTime hours minutes) (currentTime sh sm @ ssec)"
      using ge(2) le by auto
    then show ?thesis
      unfolding r by simp
  qed
  show "isWithinActiveHours (Inr (row # others)) hours minutes = Inr True"
    if "60 * wh + wm < 60 * hours + minutes \<and> 60 * hours + minutes \<le> 60 * sh + sm"
  proof -
    from that have "str_ge (currentTime hours minutes) (currentTime wh wm @ wsec)"
      "str_le (currentTime hours minutes) (currentTime sh sm @ ssec)"
      using ge(1) le by auto
    then show ?thesis
      unfolding r by simp
  qed
qed

text \<open>
  C6 (as amended). For a user with a row of preferences whose wake time is not after its
  sleep time, the cycle first checks the current local time against the two: before the
  wake time or after the sleep time the cycle is skipped entirely (nothing is fetched,
  stored or marked as synchronized), and after the wake time and not after the sleep time
  the fetch is the first effect. Nothing is stated for the wake minute itself. A user with
  no row of preferences is always active, and the cycle runs.
\<close>

theorem C6_active_hours_gate:
  "(hours < 24 \<and> minutes < 60 \<and> wh < 24 \<and> wm < 60 \<and> sh < 24 \<and> sm < 60 \<and>
    wake_time row = currentTime wh wm @ wsec \<and> sleep_time row = currentTime sh sm @ ssec \<and>
    60 * wh + wm \<le> 60 * sh + sm \<longrightarrow>
      (60 * hours + minutes < 60 * wh + wm \<or> 60 * sh + sm < 60 * hours + minutes \<longrightarrow>
         checkGmailForUser (Inr (row # others)) hours minutes fetched insertable stored = ([], stored)) \<and>
      (60 * wh + wm < 60 * hours + minutes \<and> 60 * hours + minutes \<le> 60 * sh + sm \<longrightarrow>
         (\<exists>effects. fst (checkGmailForUser (Inr (row # others)) hours minutes fetched insertable stored)
            = FetchEmails # effects))) \<and>
   (isWithinActiveHours rows hours minutes = Inr False \<longrightarrow>
      checkGmailForUser rows hours minutes fetched insertable stored = ([], stored)) \<and>
   (isWithinActiveHours rows hours minutes = Inr True \<longrightarrow>
      (\<exists>effects. fst (checkGmailForUser rows hours minutes fetched insertable stored)
         = FetchEmails # effects)) \<and>
   isWithinActiveHours (Inr []) hours minutes = Inr True \<and>
   (\<exists>effects. fst (checkGmailForUser (Inr []) hours minutes fetched insertable stored)
      = FetchEmails # effects)"
proof -
  have 1: "checkGmailForUser (Inr (row # others)) hours minutes fetched insertable stored = ([], stored)"
    if "hours < 24" "minutes < 60" "wh < 24" "wm < 60" "sh < 24" "sm < 60"
      "wake_time row = currentTime wh wm @ wsec" "sleep_time row = currentTime sh sm @ ssec"
      "60 * hours + minutes < 60 * wh + wm \<or> 60 * sh + sm < 60 * hours + minutes"
    using isWithinActiveHours_window(1) [OF that] by (rule checkGmailForUser_skipped)
  have 2: "\<exists>effects. fst (checkGmailForUser (Inr (row # others)) hours minutes fetched insertable stored)
            = FetchEmails # effects"
    if "hours < 24" "minutes < 60" "wh < 24" "wm < 60" "sh < 24" "sm < 60"
      "wake_time row = currentTime wh wm @ wsec" "sleep_time row = currentTime sh sm @ ssec"
      "60 * wh + wm < 60 * hours + minutes \<and> 60 * hours + minutes \<le> 60 * sh + sm"
    using isWithinActiveHours_window(2) [OF that] by (rule checkGmailForUser_fetches)
  have 3: "checkGmailForUser rows hours minutes fetched insertable stored = ([], stored)"
    if "isWithinActiveHours rows hours minutes = Inr False"
    using that by (rule checkGmailForUser_skipped)
  have 4: "\<exists>effects. fst (checkGmailForUser rows hours minutes fetched insertable stored)
         = FetchEmails # effects"
    if "isWithinActiveHours rows hours minutes = Inr True"
    using that by (rule checkGmailForUser_fetches)
  have 5: "\<exists>effects. fst (checkGmailForUser (Inr []) hours minutes fetched insertable stored)
      = FetchEmails # effects"
    using isWithinActiveHours_no_row by (rule checkGmailForUser_fetches)
  from 1 2 3 4 5 isWithinActiveHours_no_row [of hours minutes] show ?thesis
    by blast
qed

theorem C6_active_hours_gate_witness:
  "checkGmailForUser (Inr [defaultPreferences]) 23 30 (Inr [''m1'']) (\<lambda>e. True) [] = ([], []) \<and>
   (\<exists>effects. fst (checkGmailForUser (Inr [defaultPreferences]) 9 5 (Inr [''m1'']) (\<lambda>e. True) [])
      = FetchEmails # effects) \<and>
   isWithinActiveHours (Inr [defaultPreferences]) 23 30 = Inr False \<and>
   isWithinActiveHours (Inr [defaultPreferences]) 9 5 = Inr True"
proof -
  have t: "wake_time defaultPreferences = currentTime 8 0 @ '':00''"
    "sleep_time defaultPreferences = currentTime 21 0 @ '':00''"
    by (simp_all add: defaultPreferences_def currentTime_def padStart2_def digit_def)
  have b: "(23::nat) < 24" "(30::nat) < 60" "(8::nat) < 24" "(0::nat) < 60" "(21::nat) < 24"
    "(9::nat) < 24" "(5::nat) < 60" "60 * 8 + 0 \<le> 60 * 21 + (0::nat)"
    "60 * 21 + 0 < 60 * 23 + (30::nat)"
    "60 * 8 + 0 < 60 * 9 + (5::nat) \<and> 60 * 9 + 5 \<le> 60 * 21 + (0::nat)"
    by simp_all
  have n: "isWithinActiveHours (Inr [defaultPreferences]) 23 30 = Inr False"
    by (simp add: isWithinActiveHours_def bindE_def defaultPreferences_def currentTime_examples
        str_ge_def str_le_def)
  have d: "isWithinActiveHours (Inr [defaultPreferences]) 9 5 = Inr True"
    by (simp add: isWithinActiveHours_def bindE_def defaultPreferences_def currentTime_examples
        str_ge_def str_le_def)
  note late = C6_active_hours_gate [where hours = 23 and minutes = 30 and wh = 8 and wm = 0
      and sh = 21 and sm = 0 and row = defaultPreferences and wsec = "'':00''" and ssec = "'':00''"
      and others = "[]" and fetched = "Inr [''m1'']" and insertable = "\<lambda>e. True" and stored = "[]"
      and rows = "Inr [defaultPreferences]"]
  note day = C6_active_hours_gate [where hours = 9 and minutes = 5 and wh = 8 and wm = 0
      and sh = 21 and sm = 0 and row = defaultPreferences and wsec = "'':00''" and ssec = "'':00''"
      and others = "[]" and fetched = "Inr [''m1'']" and insertable = "\<lambda>e. True" and stored = "[]"
      and rows = "Inr [defaultPreferences]"]
  have 1: "checkGmailForUser (Inr [defaultPreferences]) 23 30 (Inr [''m1'']) (\<lambda>e. True) [] = ([], [])"
    using late t b by blast
  have 2: "\<exists>effects. fst (checkGmailForUser (Inr [defaultPreferences]) 9 5 (Inr [''m1'']) (\<lambda>e. True) [])
      = FetchEmails # effects"
    using day t b by blast
  have 3: "checkGmailForUser (Inr [defaultPreferences]) 23 30 (Inr [''m1'']) (\<lambda>e. True) [] = ([], [])"
    using late n by blast
  from 1 2 3 n d show ?thesis
    by blast
qed

text \<open>
  C6 as stated fails for a user with no row of preferences: at 23:30, outside the window
  from 08:00 to 21:00 that a row with the defaults gives, the cycle runs.
\<close>

theorem C6_no_preferences_counterexample:
  "\<not> str_le (currentTime 23 30) ''21:00'' \<and>
   isWithinActiveHours (Inr [defaultPreferences]) 23 30 = Inr False \<and>
   isWithinActiveHours (Inr []) 23 30 = Inr True \<and>
   checkGmailForUser (Inr []) 23 30 (Inr [''m1'']) (\<lambda>e. True) []
     = ([FetchEmails, Classify ''m1'', StoreMessage ''m1'', UpdateLastSync], [''m1''])"
  by (simp add: isWithinActiveHours_def bindE_def defaultPreferences_def currentTime_examples
      str_ge_def str_le_def checkGmailForUser_def)

end
